theory Spec2Isabelle
  imports Main "HOL-Library.Multiset" "HOL-Library.AList"
begin

section \<open>Go string helpers used by the services package\<close>

text \<open>
  Go strings are byte sequences; \<^typ>\<open>string\<close> is a list of bytes as well.
  \<open>HasPrefix\<close>, \<open>TrimPrefix\<close>, \<open>Contains\<close>, \<open>SplitN\<close> (with limit 2) and \<open>Split\<close>
  are the functions of package \<open>strings\<close> that the source calls; the separators the
  source passes to the two split functions are single bytes.
\<close>

definition HasPrefix :: "string \<Rightarrow> string \<Rightarrow> bool" where
  "HasPrefix s pre = (take (length pre) s = pre)"

definition TrimPrefix :: "string \<Rightarrow> string \<Rightarrow> string" where
  "TrimPrefix s pre = (if HasPrefix s pre then drop (length pre) s else s)"

fun Contains :: "string \<Rightarrow> string \<Rightarrow> bool" where
  "Contains [] sub = (sub = [])"
| "Contains (c # cs) sub = (HasPrefix (c # cs) sub \<or> Contains cs sub)"

fun Split :: "string \<Rightarrow> char \<Rightarrow> string list" where
  "Split [] sep = [[]]"
| "Split (c # cs) sep =
     (if c = sep then [] # Split cs sep
      else (case Split cs sep of [] \<Rightarrow> [[c]] | p # ps \<Rightarrow> (c # p) # ps))"

definition SplitN2 :: "string \<Rightarrow> char \<Rightarrow> string list" where
  "SplitN2 s sep =
     (if sep \<in> set s then [takeWhile (\<lambda>c. c \<noteq> sep) s, tl (dropWhile (\<lambda>c. c \<noteq> sep) s)]
      else [s])"

section \<open>Update detection: the local-image heuristic\<close>

text \<open>
  \<open>isLocalImage\<close> of \<open>internal/services/container.go\<close>, test by test in the order of
  the source: the \<open>sha256:\<close> prefix, the two \<open>localhost\<close> prefixes, the registry test
  on the part before the first slash (only when there is a slash), and the test on
  \<open>baseName\<close>, the part before the first colon.
\<close>

definition isLocalImage :: "string \<Rightarrow> bool" where
  "isLocalImage imageName =
     (if HasPrefix imageName ''sha256:'' then True
      else if HasPrefix imageName ''localhost/'' \<or> HasPrefix imageName ''localhost:'' then True
      else
        let parts = SplitN2 imageName (CHR ''/'') in
        if length parts > 1 \<and> (Contains (parts ! 0) ''.'' \<or> Contains (parts ! 0) '':'') then False
        else
          let imageParts = Split imageName (CHR '':'');
              baseName = imageParts ! 0
          in if \<not> Contains baseName ''/'' \<and> (Contains baseName ''-'' \<or> Contains baseName ''_'')
             then True else False)"

section \<open>Data model\<close>

text \<open>
  Go \<open>error\<close> values are modelled by their message, and \<open>fmt.Errorf\<close> with \<open>%w\<close> or
  \<open>%s\<close> by concatenation. A Go map that the code tests against \<open>nil\<close> is an
  \<open>option\<close> of a map; reading a missing key yields the zero value.
\<close>

type_synonym err = string

type_synonym labels = "(string \<rightharpoonup> string) option"

definition label :: "labels \<Rightarrow> string \<Rightarrow> string" where
  "label ls k = (case ls of None \<Rightarrow> [] | Some m \<Rightarrow> (case m k of None \<Rightarrow> [] | Some v \<Rightarrow> v))"

text \<open>\<open>types.Container\<close> of the Docker SDK: the fields the services read.\<close>

record Container =
  tc_ID :: string
  tc_Names :: "string list"
  tc_Image :: string
  tc_State :: string
  tc_Labels :: labels

text \<open>\<open>internal/models/container.go\<close>.\<close>

datatype GroupType = GroupTypeCompose | GroupTypeStandalone

record ContainerInfo =
  ci_ID :: string
  ci_Name :: string
  ci_Image :: string
  ci_ImageDigest :: string
  ci_LatestDigest :: string
  ci_State :: string
  ci_HasUpdate :: bool
  ci_Labels :: labels

record ContainerGroup =
  cg_ID :: string
  cg_Name :: string
  cg_Type :: GroupType
  cg_Containers :: "ContainerInfo list"
  cg_WorkingDir :: string
  cg_HasUpdates :: bool
  cg_AllRunning :: bool

section \<open>Grouping service\<close>

definition IsComposeProject :: "Container \<Rightarrow> bool \<times> string" where
  "IsComposeProject container =
     (case tc_Labels container of
        None \<Rightarrow> (False, [])
      | Some m \<Rightarrow>
          (case m ''com.docker.compose.project'' of
             Some projectName \<Rightarrow> if projectName \<noteq> [] then (True, projectName) else (False, [])
           | None \<Rightarrow> (False, [])))"

definition getContainerName :: "string list \<Rightarrow> string" where
  "getContainerName names = (case names of [] \<Rightarrow> [] | name # _ \<Rightarrow> TrimPrefix name ''/'')"

definition areAllContainersRunning :: "ContainerInfo list \<Rightarrow> bool" where
  "areAllContainersRunning containers =
     (if length containers = 0 then False
      else list_all (\<lambda>container. ci_State container = ''running'') containers)"

text \<open>The \<open>ContainerInfo\<close> literal built for each listed container; the fields it does not
  name have Go's zero values.\<close>

definition containerInfo :: "Container \<Rightarrow> ContainerInfo" where
  "containerInfo container =
     \<lparr> ci_ID = tc_ID container, ci_Name = getContainerName (tc_Names container),
       ci_Image = tc_Image container, ci_ImageDigest = [], ci_LatestDigest = [],
       ci_State = tc_State container, ci_HasUpdate = False, ci_Labels = tc_Labels container \<rparr>"

text \<open>
  One iteration of the loop over the listed containers. The state is the map
  \<open>composeProjects\<close>, kept as an association list with one entry per key, and the slice
  \<open>standaloneGroups\<close>.
\<close>

definition groupContainer ::
  "Container \<Rightarrow> (string \<times> ContainerGroup) list \<times> ContainerGroup list
     \<Rightarrow> (string \<times> ContainerGroup) list \<times> ContainerGroup list" where
  "groupContainer container st =
     (case st of (composeProjects, standaloneGroups) \<Rightarrow>
      (case IsComposeProject container of (isCompose, projectName) \<Rightarrow>
        if isCompose then
          (case map_of composeProjects projectName of
             Some grp \<Rightarrow>
               (AList.update projectName
                  (grp\<lparr>cg_Containers := cg_Containers grp @ [containerInfo container]\<rparr>)
                  composeProjects, standaloneGroups)
           | None \<Rightarrow>
               (AList.update projectName
                  \<lparr> cg_ID = projectName, cg_Name = projectName, cg_Type = GroupTypeCompose,
                    cg_Containers = [containerInfo container],
                    cg_WorkingDir =
                      label (tc_Labels container) ''com.docker.compose.project.working_dir'',
                    cg_HasUpdates = False, cg_AllRunning = False \<rparr>
                  composeProjects, standaloneGroups))
        else
          (composeProjects,
           standaloneGroups @
             [\<lparr> cg_ID = tc_ID container, cg_Name = getContainerName (tc_Names container),
                cg_Type = GroupTypeStandalone, cg_Containers = [containerInfo container],
                cg_WorkingDir = [], cg_HasUpdates = False, cg_AllRunning = False \<rparr>])))"

text \<open>
  \<open>GetContainerGroups\<close>. The listing is the answer of \<open>client.ListContainers\<close>. Go visits
  the entries of a map in an unspecified order: \<open>iter\<close> is the order in which the final
  \<open>range composeProjects\<close> visits them.
\<close>

definition GetContainerGroups ::
  "((string \<times> ContainerGroup) list \<Rightarrow> (string \<times> ContainerGroup) list)
     \<Rightarrow> err + Container list \<Rightarrow> err + ContainerGroup list" where
  "GetContainerGroups iter listing =
     (case listing of
        Inl e \<Rightarrow> Inl (''failed to list containers: '' @ e)
      | Inr containers \<Rightarrow>
          (case fold groupContainer containers ([], []) of
             (composeProjects, standaloneGroups) \<Rightarrow>
               Inr (map (\<lambda>(k, grp).
                          grp\<lparr>cg_AllRunning := areAllContainersRunning (cg_Containers grp)\<rparr>)
                      (iter composeProjects)
                    @ standaloneGroups)))"

subsection \<open>Auxiliary notions for the grouping proofs\<close>

text \<open>The members held by the loop state, the shape of the two collections, and the
  place an instance has once the loop has visited it.\<close>

definition members :: "(string \<times> ContainerGroup) list \<times> ContainerGroup list \<Rightarrow> ContainerInfo multiset" where
  "members st = mset (concat (map (cg_Containers \<circ> snd) (fst st))) + mset (concat (map cg_Containers (snd st)))"

definition compose_ok :: "(string \<times> ContainerGroup) list \<Rightarrow> bool" where
  "compose_ok cp = (distinct (map fst cp) \<and> (\<forall>(k, g) \<in> set cp. cg_ID g = k \<and> cg_Type g = GroupTypeCompose))"

definition standalone_ok :: "ContainerGroup list \<Rightarrow> bool" where
  "standalone_ok sa = (\<forall>g \<in> set sa. cg_Type g = GroupTypeStandalone \<and> length (cg_Containers g) = 1)"

definition placed :: "Container \<Rightarrow> (string \<times> ContainerGroup) list \<times> ContainerGroup list \<Rightarrow> bool" where
  "placed c st =
     (case IsComposeProject c of
        (True, p) \<Rightarrow> (\<exists>g. map_of (fst st) p = Some g \<and> containerInfo c \<in> set (cg_Containers g))
      | (False, _) \<Rightarrow> (\<exists>g \<in> set (snd st). cg_ID g = tc_ID c \<and> cg_Type g = GroupTypeStandalone
                           \<and> cg_Containers g = [containerInfo c]))"

subsection \<open>A listing from the test suite\<close>

text \<open>The listing of the case "mixed compose and standalone" of \<open>TestGetContainerGroups\<close>.\<close>

definition appLabels :: "string \<rightharpoonup> string" where
  "appLabels =
     [''com.docker.compose.project'' \<mapsto> ''app'',
      ''com.docker.compose.project.working_dir'' \<mapsto> ''/home/user/app'']"

definition appWeb :: Container where
  "appWeb = \<lparr> tc_ID = ''container1'', tc_Names = [''/app-web-1''], tc_Image = ''nginx:latest'',
               tc_State = ''running'', tc_Labels = Some appLabels \<rparr>"

definition standaloneRedis :: Container where
  "standaloneRedis =
     \<lparr> tc_ID = ''container2'', tc_Names = [''/standalone''], tc_Image = ''redis:latest'',
       tc_State = ''running'', tc_Labels = Some Map.empty \<rparr>"

section \<open>The runtime client\<close>

text \<open>
  \<open>container.Config\<close>, \<open>container.HostConfig\<close> and \<open>types.ContainerJSON\<close> of the Docker
  SDK, with the fields the services read or write. \<open>cfg_User\<close> and \<open>hc_NetworkMode\<close>
  stand for the fields that the services never name: a Go struct literal leaves them at
  their zero value. A slice that the code tests against \<open>nil\<close> is an \<open>option\<close>; one that
  it only copies is a list. The attached networks are a Go map, given here as the list
  of its entries in the order in which \<open>range\<close> visits them.
\<close>

record PortBinding =
  pb_HostIP :: string
  pb_HostPort :: string

record RestartPolicy =
  rp_Name :: string
  rp_MaximumRetryCount :: int

record Resources =
  rs_CPUShares :: int
  rs_Memory :: int
  rs_NanoCPUs :: int

record Config =
  cfg_Image :: string
  cfg_Env :: "string list"
  cfg_Cmd :: "string list"
  cfg_Entrypoint :: "string list"
  cfg_Labels :: labels
  cfg_ExposedPorts :: "string set option"
  cfg_User :: string

record HostConfig =
  hc_PortBindings :: "(string \<rightharpoonup> PortBinding list) option"
  hc_Binds :: "string list option"
  hc_RestartPolicy :: RestartPolicy
  hc_Resources :: Resources
  hc_NetworkMode :: string

record EndpointSettings =
  es_NetworkID :: string

record NetworkSettings =
  ns_Networks :: "(string \<times> EndpointSettings) list option"

record ContainerJSON =
  cj_Name :: string
  cj_Config :: "Config option"
  cj_HostConfig :: "HostConfig option"
  cj_NetworkSettings :: "NetworkSettings option"

text \<open>\<open>ContainerParams\<close> of \<open>internal/models/container.go\<close>.\<close>

record ContainerParams =
  cp_Image :: string
  cp_Name :: string
  cp_Env :: "string list"
  cp_Cmd :: "string list"
  cp_Entrypoint :: "string list"
  cp_PortBindings :: "string \<rightharpoonup> PortBinding list"
  cp_Binds :: "string list"
  cp_Networks :: "string list"
  cp_RestartPolicy :: RestartPolicy
  cp_Labels :: labels
  cp_Resources :: Resources

text \<open>
  The interface \<open>DockerClient\<close>, with the methods the services call. An implementation
  has a state of its own (the daemon behind it, the counters of a mock): each method
  takes the state \<open>'w\<close> and returns its answer with the new state.
\<close>

record 'w DockerClient =
  InspectContainer :: "string \<Rightarrow> 'w \<Rightarrow> (err + ContainerJSON) \<times> 'w"
  PullImage :: "string \<Rightarrow> 'w \<Rightarrow> err option \<times> 'w"
  GetImageDigest :: "string \<Rightarrow> 'w \<Rightarrow> (err + string) \<times> 'w"
  StartContainer :: "string \<Rightarrow> 'w \<Rightarrow> err option \<times> 'w"
  StopContainer :: "string \<Rightarrow> 'w \<Rightarrow> err option \<times> 'w"
  RemoveContainer :: "string \<Rightarrow> 'w \<Rightarrow> err option \<times> 'w"
  CreateContainer :: "Config \<Rightarrow> HostConfig \<Rightarrow> string \<Rightarrow> 'w \<Rightarrow> (err + string) \<times> 'w"

text \<open>\<open>exec.CommandContext(...).CombinedOutput()\<close> in a directory: the error, if any, and
  the combined output.\<close>

type_synonym 'w Exec = "string \<Rightarrow> string list \<Rightarrow> 'w \<Rightarrow> (err option \<times> string) \<times> 'w"

section \<open>Configuration extractor\<close>

definition ExtractContainerParams :: "ContainerJSON \<Rightarrow> err + ContainerParams" where
  "ExtractContainerParams containerJSON =
     (case cj_Config containerJSON of
        None \<Rightarrow> Inl ''container config is nil''
      | Some config \<Rightarrow>
          (case cj_HostConfig containerJSON of
             None \<Rightarrow> Inl ''container host config is nil''
           | Some hostConfig \<Rightarrow>
               let name = TrimPrefix (cj_Name containerJSON) ''/'';
                   portBindings =
                     (case hc_PortBindings hostConfig of None \<Rightarrow> Map.empty | Some pm \<Rightarrow> pm);
                   binds = (case hc_Binds hostConfig of None \<Rightarrow> [] | Some bs \<Rightarrow> [] @ bs);
                   networks =
                     (case cj_NetworkSettings containerJSON of
                        None \<Rightarrow> []
                      | Some ns \<Rightarrow>
                          (case ns_Networks ns of None \<Rightarrow> [] | Some nets \<Rightarrow> map fst nets))
               in Inr \<lparr> cp_Image = cfg_Image config, cp_Name = name, cp_Env = cfg_Env config,
                         cp_Cmd = cfg_Cmd config, cp_Entrypoint = cfg_Entrypoint config,
                         cp_PortBindings = portBindings, cp_Binds = binds,
                         cp_Networks = networks,
                         cp_RestartPolicy = hc_RestartPolicy hostConfig,
                         cp_Labels = cfg_Labels config,
                         cp_Resources = hc_Resources hostConfig \<rparr>))"

section \<open>Standalone recreation\<close>

definition UpdateStandaloneContainer ::
  "'w DockerClient \<Rightarrow> string \<Rightarrow> 'w \<Rightarrow> err option \<times> 'w" where
  "UpdateStandaloneContainer client containerID w0 =
     (case InspectContainer client containerID w0 of
        (Inl e, w1) \<Rightarrow> (Some (''failed to inspect container '' @ containerID @ '': '' @ e), w1)
      | (Inr containerJSON, w1) \<Rightarrow>
     (case ExtractContainerParams containerJSON of
        Inl e \<Rightarrow>
          (Some (''failed to extract container parameters for '' @ containerID @ '': '' @ e), w1)
      | Inr params \<Rightarrow>
     (case PullImage client (cp_Image params) w1 of
        (Some e, w2) \<Rightarrow>
          (Some (''failed to pull latest image '' @ cp_Image params @ '': '' @ e), w2)
      | (None, w2) \<Rightarrow>
     (case StopContainer client containerID w2 of
        (Some e, w3) \<Rightarrow> (Some (''failed to stop container '' @ containerID @ '': '' @ e), w3)
      | (None, w3) \<Rightarrow>
     (case RemoveContainer client containerID w3 of
        (Some e, w4) \<Rightarrow> (Some (''failed to remove container '' @ containerID @ '': '' @ e), w4)
      | (None, w4) \<Rightarrow>
     (let exposedPorts = dom (cp_PortBindings params);
          containerConfig =
            \<lparr> cfg_Image = cp_Image params, cfg_Env = cp_Env params, cfg_Cmd = cp_Cmd params,
              cfg_Entrypoint = cp_Entrypoint params, cfg_Labels = cp_Labels params,
              cfg_ExposedPorts = Some exposedPorts, cfg_User = [] \<rparr>;
          hostConfig =
            \<lparr> hc_PortBindings = Some (cp_PortBindings params), hc_Binds = Some (cp_Binds params),
              hc_RestartPolicy = cp_RestartPolicy params, hc_Resources = cp_Resources params,
              hc_NetworkMode = [] \<rparr>
      in
     (case CreateContainer client containerConfig hostConfig (cp_Name params) w4 of
        (Inl e, w5) \<Rightarrow>
          (Some (''failed to create new container '' @ cp_Name params @ '': '' @ e), w5)
      | (Inr newContainerID, w5) \<Rightarrow>
     (case StartContainer client newContainerID w5 of
        (Some e, w6) \<Rightarrow>
          (Some (''failed to start new container '' @ newContainerID @ '': '' @ e), w6)
      | (None, w6) \<Rightarrow> (None, w6)))))))))"

section \<open>Grouped update\<close>

text \<open>The loop over \<open>containerImages\<close>: it returns at the first pull that fails.\<close>

fun pullImages :: "'w DockerClient \<Rightarrow> string \<Rightarrow> string list \<Rightarrow> 'w \<Rightarrow> err option \<times> 'w" where
  "pullImages client projectName [] w = (None, w)"
| "pullImages client projectName (img # images) w =
     (case PullImage client img w of
        (Some e, w') \<Rightarrow>
          (Some (''failed to pull image '' @ img @ '' for project '' @ projectName @ '': '' @ e),
           w')
      | (None, w') \<Rightarrow> pullImages client projectName images w')"

definition composeDown :: "string list" where
  "composeDown = [''docker'', ''compose'', ''down'']"

definition composeUp :: "string list" where
  "composeUp = [''docker'', ''compose'', ''up'', ''-d'', ''--build'']"

definition commandFailure :: "string \<Rightarrow> string \<Rightarrow> err \<Rightarrow> string \<Rightarrow> err" where
  "commandFailure command projectName e output =
     ''failed to execute '' @ [CHR 0x27] @ command @ [CHR 0x27] @ '' for project '' @ projectName
       @ '': '' @ e @ [CHR 0x0A] @ ''Output: '' @ output"

definition UpdateComposeProject ::
  "'w DockerClient \<Rightarrow> 'w Exec \<Rightarrow> string \<Rightarrow> string \<Rightarrow> string list \<Rightarrow> 'w \<Rightarrow> err option \<times> 'w"
  where
  "UpdateComposeProject client exec projectName workDir containerImages w0 =
     (if workDir = [] then
        (Some (''working directory is required for compose project '' @ projectName), w0)
      else
     (case pullImages client projectName containerImages w0 of
        (Some e, w1) \<Rightarrow> (Some e, w1)
      | (None, w1) \<Rightarrow>
     (case exec workDir composeDown w1 of
        ((Some e, output), w2) \<Rightarrow>
          (Some (commandFailure ''docker compose down'' projectName e output), w2)
      | ((None, output), w2) \<Rightarrow>
     (case exec workDir composeUp w2 of
        ((Some e, output), w3) \<Rightarrow>
          (Some (commandFailure ''docker compose up -d --build'' projectName e output), w3)
      | ((None, output), w3) \<Rightarrow> (None, w3)))))"

section \<open>Observing the client\<close>

text \<open>
  A recording client wraps a client and notes, in the order in which they happen, each
  call it receives together with whether the call succeeded. The services are run with
  it to state in which order they use the runtime.
\<close>

datatype call =
    CallInspect string
  | CallPull string
  | CallDigest string
  | CallStop string
  | CallRemove string
  | CallCreate Config HostConfig string
  | CallStart string
  | CallExec string "string list"

type_synonym event = "call \<times> bool"

definition recording :: "'w DockerClient \<Rightarrow> ('w \<times> event list) DockerClient" where
  "recording client =
     \<lparr> InspectContainer = (\<lambda>cid (w, tr). case InspectContainer client cid w of
          (r, w') \<Rightarrow> (r, (w', tr @ [(CallInspect cid, \<not> isl r)]))),
       PullImage = (\<lambda>img (w, tr). case PullImage client img w of
          (r, w') \<Rightarrow> (r, (w', tr @ [(CallPull img, r = None)]))),
       GetImageDigest = (\<lambda>img (w, tr). case GetImageDigest client img w of
          (r, w') \<Rightarrow> (r, (w', tr @ [(CallDigest img, \<not> isl r)]))),
       StartContainer = (\<lambda>cid (w, tr). case StartContainer client cid w of
          (r, w') \<Rightarrow> (r, (w', tr @ [(CallStart cid, r = None)]))),
       StopContainer = (\<lambda>cid (w, tr). case StopContainer client cid w of
          (r, w') \<Rightarrow> (r, (w', tr @ [(CallStop cid, r = None)]))),
       RemoveContainer = (\<lambda>cid (w, tr). case RemoveContainer client cid w of
          (r, w') \<Rightarrow> (r, (w', tr @ [(CallRemove cid, r = None)]))),
       CreateContainer = (\<lambda>config hostConfig name (w, tr).
          case CreateContainer client config hostConfig name w of
          (r, w') \<Rightarrow> (r, (w', tr @ [(CallCreate config hostConfig name, \<not> isl r)]))) \<rparr>"

definition recordingExec :: "'w Exec \<Rightarrow> ('w \<times> event list) Exec" where
  "recordingExec exec =
     (\<lambda>dir argv (w, tr). case exec dir argv w of
        (r, w') \<Rightarrow> (r, (w', tr @ [(CallExec dir argv, fst r = None)])))"

subsection \<open>An inspection record from the test suite\<close>

text \<open>The case "basic container configuration" of \<open>TestExtractContainerParams\<close>; the
  fields the test does not name have Go's zero values.\<close>

definition zeroRestartPolicy :: RestartPolicy where
  "zeroRestartPolicy = \<lparr> rp_Name = [], rp_MaximumRetryCount = 0 \<rparr>"

definition zeroResources :: Resources where
  "zeroResources = \<lparr> rs_CPUShares = 0, rs_Memory = 0, rs_NanoCPUs = 0 \<rparr>"


subsection \<open>The arguments of the create call\<close>

text \<open>The two struct literals that \<open>UpdateStandaloneContainer\<close> builds from the extracted
  parameters, named for the proofs.\<close>

definition createConfig :: "ContainerParams \<Rightarrow> Config" where
  "createConfig params =
     \<lparr> cfg_Image = cp_Image params, cfg_Env = cp_Env params, cfg_Cmd = cp_Cmd params,
       cfg_Entrypoint = cp_Entrypoint params, cfg_Labels = cp_Labels params,
       cfg_ExposedPorts = Some (dom (cp_PortBindings params)), cfg_User = [] \<rparr>"

definition createHostConfig :: "ContainerParams \<Rightarrow> HostConfig" where
  "createHostConfig params =
     \<lparr> hc_PortBindings = Some (cp_PortBindings params), hc_Binds = Some (cp_Binds params),
       hc_RestartPolicy = cp_RestartPolicy params, hc_Resources = cp_Resources params,
       hc_NetworkMode = [] \<rparr>"

subsection \<open>Clients of the test suite\<close>

text \<open>
  The mock of \<open>TestUpdateStandaloneContainer\<close>, case "successful update": the
  inspection answers with \<open>testContainer\<close> and every other call succeeds. The second
  client is the mock of the case "pull image fails". Neither has a state.
\<close>

definition testContainer :: ContainerJSON where
  "testContainer =
     \<lparr> cj_Name = ''/test-container'',
       cj_Config = Some \<lparr> cfg_Image = ''nginx:latest'', cfg_Env = [''TEST=value''], cfg_Cmd = [],
                          cfg_Entrypoint = [], cfg_Labels = None, cfg_ExposedPorts = None,
                          cfg_User = [] \<rparr>,
       cj_HostConfig = Some \<lparr> hc_PortBindings = None, hc_Binds = Some [],
                              hc_RestartPolicy = zeroRestartPolicy, hc_Resources = zeroResources,
                              hc_NetworkMode = [] \<rparr>,
       cj_NetworkSettings = None \<rparr>"

definition successMock :: "unit DockerClient" where
  "successMock =
     \<lparr> InspectContainer = (\<lambda>cid w. (Inr testContainer, w)),
       PullImage = (\<lambda>img w. (None, w)),
       GetImageDigest = (\<lambda>img w. (Inr ''sha256:mock-digest'', w)),
       StartContainer = (\<lambda>cid w. (None, w)),
       StopContainer = (\<lambda>cid w. (None, w)),
       RemoveContainer = (\<lambda>cid w. (None, w)),
       CreateContainer = (\<lambda>config hostConfig name w. (Inr ''new-container-id'', w)) \<rparr>"

definition pullFailsMock :: "unit DockerClient" where
  "pullFailsMock = successMock\<lparr>PullImage := (\<lambda>img w. (Some ''failed to pull image'', w))\<rparr>"

text \<open>A client that answers as the given one, except that every inspection record it
  returns carries the given network settings.\<close>

definition withNetworkSettings ::
  "NetworkSettings option \<Rightarrow> 'w DockerClient \<Rightarrow> 'w DockerClient" where
  "withNetworkSettings ns client =
     client\<lparr>InspectContainer := (\<lambda>cid w. case InspectContainer client cid w of
        (Inr j, w') \<Rightarrow> (Inr (j\<lparr>cj_NetworkSettings := ns\<rparr>), w')
      | (Inl e, w') \<Rightarrow> (Inl e, w'))\<rparr>"

text \<open>The calls expected of the two test cases, with the arguments of the create call.\<close>

definition testCreateConfig :: Config where
  "testCreateConfig =
     \<lparr> cfg_Image = ''nginx:latest'', cfg_Env = [''TEST=value''], cfg_Cmd = [],
       cfg_Entrypoint = [], cfg_Labels = None, cfg_ExposedPorts = Some {}, cfg_User = [] \<rparr>"

definition testCreateHostConfig :: HostConfig where
  "testCreateHostConfig =
     \<lparr> hc_PortBindings = Some Map.empty, hc_Binds = Some [],
       hc_RestartPolicy = zeroRestartPolicy, hc_Resources = zeroResources,
       hc_NetworkMode = [] \<rparr>"

definition successTrace :: "event list" where
  "successTrace =
     [(CallInspect ''container123'', True), (CallPull ''nginx:latest'', True),
      (CallStop ''container123'', True), (CallRemove ''container123'', True),
      (CallCreate testCreateConfig testCreateHostConfig ''test-container'', True),
      (CallStart ''new-container-id'', True)]"


subsection \<open>Auxiliary notions for the grouped update\<close>

text \<open>The event of a pull that succeeded.\<close>

definition pulled :: "string \<Rightarrow> event" where
  "pulled img = (CallPull img, True)"

text \<open>Commands of the test suite's kind: one that always succeeds and one whose tear-down
  exits non-zero.\<close>

definition okExec :: "unit Exec" where
  "okExec = (\<lambda>dir argv w. ((None, []), w))"

definition downFailsExec :: "unit Exec" where
  "downFailsExec =
     (\<lambda>dir argv w. if argv = [''docker'', ''compose'', ''down'']
        then ((Some ''exit status 1'', ''no configuration file provided''), w)
        else ((None, []), w))"

definition downFailsTrace :: "event list" where
  "downFailsTrace =
     [(CallPull ''nginx:latest'', True),
      (CallExec ''/home/user/app'' [''docker'', ''compose'', ''down''], False)]"

section \<open>Update detection\<close>

text \<open>
  \<open>CheckUpdates\<close> starts one goroutine per container, with the body below, and waits
  for all of them. The goroutines share the client, the map \<open>imageDigests\<close> and the
  mutex; each one writes the fields of its own container only. A goroutine is modelled
  by the steps it makes one at a time: each step is one critical section on the map or
  one call to the client, together with the purely local code around it (the write of
  \<open>HasUpdate\<close> that follows a failed call is part of the step of that call, since no
  other goroutine reads the container). The program counter of a goroutine says where
  its body stands:
  \<^item> \<open>Start\<close>: before the test \<open>isLocalImage\<close> and the locked look-up in the map;
  \<^item> \<open>NeedPull\<close>: the look-up found nothing, before \<open>PullImage\<close>;
  \<^item> \<open>Pulled\<close>: before the first \<open>GetImageDigest\<close>;
  \<^item> \<open>GotLatest digest\<close>: before the locked write of \<open>digest\<close> into the map;
  \<^item> \<open>Resolved latestDigest\<close>: before the second \<open>GetImageDigest\<close>;
  \<^item> \<open>Finished\<close>: returned, with the \<open>return\<close> that was taken.
\<close>

datatype outcome = SkippedLocal | PullFailed | LatestDigestFailed | CurrentDigestFailed | Compared

datatype pc = Start | NeedPull | Pulled | GotLatest string | Resolved string | Finished outcome

text \<open>A goroutine is named by the indices \<open>(i, j)\<close> of its container: \<open>groups[i].Containers[j]\<close>.\<close>

type_synonym task = "nat \<times> nat"

record 'w cycle =
  cy_world :: 'w
  cy_imageDigests :: "string \<rightharpoonup> string"
  cy_groups :: "ContainerGroup list"
  cy_pcs :: "task \<Rightarrow> pc"

definition validTask :: "ContainerGroup list \<Rightarrow> task \<Rightarrow> bool" where
  "validTask groups t = (fst t < length groups \<and> snd t < length (cg_Containers (groups ! fst t)))"

definition containerAt :: "ContainerGroup list \<Rightarrow> task \<Rightarrow> ContainerInfo" where
  "containerAt groups t = cg_Containers (groups ! fst t) ! snd t"

definition setContainer :: "ContainerGroup list \<Rightarrow> task \<Rightarrow> ContainerInfo \<Rightarrow> ContainerGroup list" where
  "setContainer groups t c =
     groups[fst t := (groups ! fst t)
       \<lparr>cg_Containers := (cg_Containers (groups ! fst t))[snd t := c]\<rparr>]"

definition goroutineStep :: "'w DockerClient \<Rightarrow> task \<Rightarrow> 'w cycle \<Rightarrow> 'w cycle" where
  "goroutineStep client t s =
     (if \<not> validTask (cy_groups s) t then s
      else
        let c = containerAt (cy_groups s) t;
            imageName = ci_Image c
        in
        (case cy_pcs s t of
           Start \<Rightarrow>
             if isLocalImage imageName then
               s\<lparr>cy_groups := setContainer (cy_groups s) t (c\<lparr>ci_HasUpdate := False\<rparr>),
                 cy_pcs := (cy_pcs s)(t := Finished SkippedLocal)\<rparr>
             else
               (case cy_imageDigests s imageName of
                  Some latestDigest \<Rightarrow> s\<lparr>cy_pcs := (cy_pcs s)(t := Resolved latestDigest)\<rparr>
                | None \<Rightarrow> s\<lparr>cy_pcs := (cy_pcs s)(t := NeedPull)\<rparr>)
         | NeedPull \<Rightarrow>
             (case PullImage client imageName (cy_world s) of
                (Some e, w') \<Rightarrow>
                  s\<lparr>cy_world := w',
                    cy_groups := setContainer (cy_groups s) t (c\<lparr>ci_HasUpdate := False\<rparr>),
                    cy_pcs := (cy_pcs s)(t := Finished PullFailed)\<rparr>
              | (None, w') \<Rightarrow> s\<lparr>cy_world := w', cy_pcs := (cy_pcs s)(t := Pulled)\<rparr>)
         | Pulled \<Rightarrow>
             (case GetImageDigest client imageName (cy_world s) of
                (Inl e, w') \<Rightarrow>
                  s\<lparr>cy_world := w',
                    cy_groups := setContainer (cy_groups s) t (c\<lparr>ci_HasUpdate := False\<rparr>),
                    cy_pcs := (cy_pcs s)(t := Finished LatestDigestFailed)\<rparr>
              | (Inr digest, w') \<Rightarrow> s\<lparr>cy_world := w', cy_pcs := (cy_pcs s)(t := GotLatest digest)\<rparr>)
         | GotLatest digest \<Rightarrow>
             s\<lparr>cy_imageDigests := (cy_imageDigests s)(imageName \<mapsto> digest),
               cy_pcs := (cy_pcs s)(t := Resolved digest)\<rparr>
         | Resolved latestDigest \<Rightarrow>
             (case GetImageDigest client (ci_Image c) (cy_world s) of
                (Inl e, w') \<Rightarrow>
                  s\<lparr>cy_world := w',
                    cy_groups := setContainer (cy_groups s) t (c\<lparr>ci_HasUpdate := False\<rparr>),
                    cy_pcs := (cy_pcs s)(t := Finished CurrentDigestFailed)\<rparr>
              | (Inr currentDigest, w') \<Rightarrow>
                  s\<lparr>cy_world := w',
                    cy_groups := setContainer (cy_groups s) t
                      (c\<lparr>ci_ImageDigest := currentDigest, ci_LatestDigest := latestDigest,
                         ci_HasUpdate := (currentDigest \<noteq> latestDigest)\<rparr>),
                    cy_pcs := (cy_pcs s)(t := Finished Compared)\<rparr>)
         | Finished r \<Rightarrow> s))"

text \<open>A goroutine run without interruption from wherever it stands to its return: at most
  five steps lead from \<open>Start\<close> to \<open>Finished\<close>, and a finished goroutine makes no step.\<close>

definition runGoroutine :: "'w DockerClient \<Rightarrow> task \<Rightarrow> 'w cycle \<Rightarrow> 'w cycle" where
  "runGoroutine client t s =
     goroutineStep client t (goroutineStep client t (goroutineStep client t
       (goroutineStep client t (goroutineStep client t s))))"

text \<open>The goroutines, in the order of the \<open>go\<close> statements.\<close>

definition tasks :: "ContainerGroup list \<Rightarrow> task list" where
  "tasks groups =
     concat (map (\<lambda>i. map (\<lambda>j. (i, j)) [0..<length (cg_Containers (groups ! i))])
               [0..<length groups])"

text \<open>The loop after \<open>wg.Wait()\<close>, for one group.\<close>

definition rollup :: "ContainerGroup \<Rightarrow> ContainerGroup" where
  "rollup grp =
     grp\<lparr>cg_HasUpdates :=
           fold (\<lambda>container hasUpdates. if ci_HasUpdate container then True else hasUpdates)
             (cg_Containers grp) False,
         cg_AllRunning := areAllContainersRunning (cg_Containers grp)\<rparr>"

text \<open>
  One detection cycle up to the return of \<open>wg.Wait()\<close>. The scheduler interleaves the
  goroutines: \<open>schedule\<close> names, step by step, the goroutine that moves. \<open>wg.Wait()\<close>
  returns when every goroutine has returned: whatever the schedule left unfinished runs
  to its end. The empty schedule runs the goroutines one after the other.
\<close>

definition checkCycle :: "'w DockerClient \<Rightarrow> task list \<Rightarrow> ContainerGroup list \<Rightarrow> 'w \<Rightarrow> 'w cycle" where
  "checkCycle client schedule groups w =
     fold (runGoroutine client) (tasks groups)
       (fold (goroutineStep client) schedule
          \<lparr> cy_world = w, cy_imageDigests = Map.empty, cy_groups = groups,
            cy_pcs = (\<lambda>t. Start) \<rparr>)"

text \<open>\<open>CheckUpdates\<close>: the error it returns, the groups as it leaves them, and the state of
  the client.\<close>

definition CheckUpdates ::
  "'w DockerClient \<Rightarrow> task list \<Rightarrow> ContainerGroup list \<Rightarrow> 'w
     \<Rightarrow> err option \<times> ContainerGroup list \<times> 'w" where
  "CheckUpdates client schedule groups w =
     (let s = checkCycle client schedule groups w
      in (None, map rollup (cy_groups s), cy_world s))"

subsection \<open>Auxiliary notions for the update detection\<close>

text \<open>What a detection cycle never changes: the groups, their members, and of each member
  the identifier, name, image reference, state and labels.\<close>

definition identity :: "ContainerInfo \<Rightarrow> string \<times> string \<times> string \<times> string \<times> labels" where
  "identity c = (ci_ID c, ci_Name c, ci_Image c, ci_State c, ci_Labels c)"

definition shape ::
  "ContainerGroup list
     \<Rightarrow> (string \<times> string \<times> GroupType \<times> string \<times> (string \<times> string \<times> string \<times> string \<times> labels) list) list"
  where
  "shape groups =
     map (\<lambda>g. (cg_ID g, cg_Name g, cg_Type g, cg_WorkingDir g, map identity (cg_Containers g)))
       groups"

text \<open>How far a goroutine is from its return, in steps.\<close>

fun rank :: "pc \<Rightarrow> nat" where
  "rank Start = 5"
| "rank NeedPull = 4"
| "rank Pulled = 3"
| "rank (GotLatest d) = 2"
| "rank (Resolved d) = 1"
| "rank (Finished r) = 0"

text \<open>What holds of a container whose goroutine has returned: after a comparison the flag
  says whether the two recorded digests differ; after any other return it is false.\<close>

definition settled :: "'w cycle \<Rightarrow> task \<Rightarrow> bool" where
  "settled s t =
     (case cy_pcs s t of
        Finished r \<Rightarrow>
          (let c = containerAt (cy_groups s) t
           in if r = Compared then ci_HasUpdate c = (ci_ImageDigest c \<noteq> ci_LatestDigest c)
              else \<not> ci_HasUpdate c)
      | _ \<Rightarrow> True)"

subsection \<open>Clients and groups of the test suite\<close>

text \<open>
  \<open>MockClient\<close> of \<open>internal/docker/mock_client.go\<close> with no function set: the answers
  it gives by default, for any state.
\<close>

definition mockClient :: "'w DockerClient" where
  "mockClient =
     \<lparr> InspectContainer = (\<lambda>cid w. (Inl (''container not found: '' @ cid), w)),
       PullImage = (\<lambda>img w. (None, w)),
       GetImageDigest = (\<lambda>img w. (Inr ''sha256:mock-digest'', w)),
       StartContainer = (\<lambda>cid w. (None, w)),
       StopContainer = (\<lambda>cid w. (None, w)),
       RemoveContainer = (\<lambda>cid w. (None, w)),
       CreateContainer = (\<lambda>config hostConfig name w. (Inr ''mock-container-id'', w)) \<rparr>"

text \<open>
  The mock of \<open>TestCheckUpdates\<close>, case "container with update available": its state is
  the map \<open>callCount\<close>; the first digest asked for an image is the old one, every later
  one the new one. \<open>flakyMock\<close> is the same client, except that pulling \<open>redis:latest\<close>
  fails.
\<close>

definition countingMock :: "(string \<Rightarrow> nat) DockerClient" where
  "countingMock =
     mockClient\<lparr>GetImageDigest := (\<lambda>img callCount.
        (Inr (if callCount img + 1 = 1 then ''sha256:old-digest'' else ''sha256:new-digest''),
         callCount(img := callCount img + 1)))\<rparr>"

definition flakyMock :: "(string \<Rightarrow> nat) DockerClient" where
  "flakyMock =
     countingMock\<lparr>PullImage := (\<lambda>img w.
        if img = ''redis:latest'' then (Some ''pull access denied'', w) else (None, w))\<rparr>"

definition nginxInfo :: ContainerInfo where
  "nginxInfo =
     \<lparr> ci_ID = ''container1'', ci_Name = ''nginx'', ci_Image = ''nginx:latest'',
       ci_ImageDigest = [], ci_LatestDigest = [], ci_State = ''running'', ci_HasUpdate = False,
       ci_Labels = None \<rparr>"

definition nginxGroup :: ContainerGroup where
  "nginxGroup =
     \<lparr> cg_ID = ''container1'', cg_Name = ''nginx'', cg_Type = GroupTypeStandalone,
       cg_Containers = [nginxInfo], cg_WorkingDir = [], cg_HasUpdates = False,
       cg_AllRunning = False \<rparr>"

definition redisInfo :: ContainerInfo where
  "redisInfo =
     \<lparr> ci_ID = ''container2'', ci_Name = ''redis'', ci_Image = ''redis:latest'',
       ci_ImageDigest = [], ci_LatestDigest = [], ci_State = ''running'', ci_HasUpdate = False,
       ci_Labels = None \<rparr>"

definition redisGroup :: ContainerGroup where
  "redisGroup =
     \<lparr> cg_ID = ''container2'', cg_Name = ''redis'', cg_Type = GroupTypeStandalone,
       cg_Containers = [redisInfo], cg_WorkingDir = [], cg_HasUpdates = False,
       cg_AllRunning = False \<rparr>"

text \<open>A group without members whose flag was set before the cycle.\<close>

definition emptyGroup :: ContainerGroup where
  "emptyGroup =
     \<lparr> cg_ID = ''empty'', cg_Name = ''empty'', cg_Type = GroupTypeCompose, cg_Containers = [],
       cg_WorkingDir = [], cg_HasUpdates = True, cg_AllRunning = True \<rparr>"

text \<open>
  A client in the manner of \<open>internal/docker/client.go\<close> in front of a daemon, reduced to
  image tags: the daemon holds, for each reference, the digest of the image the reference
  names locally, and the registry holds the digest it would deliver. \<open>PullImage\<close> makes
  the local reference name the registry's image; \<open>GetImageDigest\<close> inspects the image
  that the reference names at the time of the call, and changes nothing.
\<close>

record daemon =
  dm_tags :: "string \<rightharpoonup> string"
  dm_registry :: "string \<rightharpoonup> string"

definition daemonClient :: "daemon DockerClient" where
  "daemonClient =
     mockClient\<lparr>
       PullImage := (\<lambda>img d. case dm_registry d img of
          None \<Rightarrow> (Some (''pull access denied for '' @ img), d)
        | Some digest \<Rightarrow> (None, d\<lparr>dm_tags := (dm_tags d)(img \<mapsto> digest)\<rparr>)),
       GetImageDigest := (\<lambda>img d. case dm_tags d img of
          None \<Rightarrow> (Inl (''No such image: '' @ img), d)
        | Some digest \<Rightarrow> (Inr digest, d))\<rparr>"

text \<open>The container \<open>nginx\<close> was started when \<open>nginx:latest\<close> named the image \<open>sha256:aaa\<close>,
  which the reference still names locally; the registry has \<open>sha256:bbb\<close> by now.\<close>

definition staleDaemon :: daemon where
  "staleDaemon =
     \<lparr> dm_tags = [''nginx:latest'' \<mapsto> ''sha256:aaa''],
       dm_registry = [''nginx:latest'' \<mapsto> ''sha256:bbb''] \<rparr>"

text \<open>A compose group whose two members run the same image.\<close>

definition sharedGroup :: ContainerGroup where
  "sharedGroup =
     \<lparr> cg_ID = ''app'', cg_Name = ''app'', cg_Type = GroupTypeCompose,
       cg_Containers = [nginxInfo\<lparr>ci_ID := ''web1'', ci_Name := ''app-web-1''\<rparr>,
                        nginxInfo\<lparr>ci_ID := ''web2'', ci_Name := ''app-web-2''\<rparr>],
       cg_WorkingDir = ''/home/user/app'', cg_HasUpdates = False, cg_AllRunning = False \<rparr>"

section \<open>Properties of the grouping service\<close>

lemma mset_concat_update_new:
  "map_of al k = None \<Longrightarrow> mset (concat (map (f \<circ> snd) (AList.update k v al))) = mset (concat (map (f \<circ> snd) al)) + mset (f v)"
  by (induction al) (auto split: if_splits)

lemma mset_concat_update_old:
  "map_of al k = Some g \<Longrightarrow> mset (f v) = mset (f g) + M \<Longrightarrow>
   mset (concat (map (f \<circ> snd) (AList.update k v al))) = mset (concat (map (f \<circ> snd) al)) + M"
  by (induction al) (auto split: if_splits)

lemma members_step: "members (groupContainer c st) = members st + {# containerInfo c #}"
  by (cases st) (auto simp: members_def groupContainer_def mset_concat_update_new mset_concat_update_old[where M="{# containerInfo c #}"]
      split: prod.splits option.splits)

lemma members_fold: "members (fold groupContainer cs st) = members st + mset (map containerInfo cs)"
  by (induction cs arbitrary: st) (auto simp: members_step)

lemma mset_concat_perm:
  assumes "mset ys = mset xs"
  shows "mset (concat (map f ys)) = mset (concat (map f xs))"
proof -
  have "mset (concat (map f zs)) = (\<Sum>z\<in>#mset zs. mset (f z))" for zs
    by (induction zs) auto
  then show ?thesis using assms by simp
qed

lemma set_update_subset: "(k', g') \<in> set (AList.update k v al) \<Longrightarrow> (k', g') = (k, v) \<or> (k', g') \<in> set al"
  by (induction al) (auto split: if_splits)

lemma compose_ok_step:
  assumes "compose_ok (fst st)" shows "compose_ok (fst (groupContainer c st))"
proof (cases st)
  case (Pair cp sa)
  show ?thesis
  proof (cases "IsComposeProject c")
    case (Pair b p)
    show ?thesis
    proof (cases b)
      case False
      with assms \<open>st = (cp, sa)\<close> Pair show ?thesis by (simp add: groupContainer_def)
    next
      case True
      show ?thesis
      proof (cases "map_of cp p")
        case None
        with assms \<open>st = (cp, sa)\<close> Pair True show ?thesis
          by (auto simp: groupContainer_def compose_ok_def distinct_update dest!: set_update_subset)
      next
        case (Some g)
        then have "(p, g) \<in> set cp" by (rule map_of_SomeD)
        with Some assms \<open>st = (cp, sa)\<close> Pair True show ?thesis
          by (auto simp: groupContainer_def compose_ok_def distinct_update dest!: set_update_subset)
      qed
    qed
  qed
qed

lemma compose_ok_fold: "compose_ok (fst st) \<Longrightarrow> compose_ok (fst (fold groupContainer cs st))"
  by (induction cs arbitrary: st) (auto simp: compose_ok_step)

lemma standalone_ok_step: "standalone_ok (snd st) \<Longrightarrow> standalone_ok (snd (groupContainer c st))"
  by (cases st) (auto simp: groupContainer_def standalone_ok_def split: prod.splits option.splits)

lemma standalone_ok_fold: "standalone_ok (snd st) \<Longrightarrow> standalone_ok (snd (fold groupContainer cs st))"
  by (induction cs arbitrary: st) (auto simp: standalone_ok_step)

lemma placed_now: "placed c (groupContainer c st)"
  by (cases st) (auto simp: placed_def groupContainer_def update_conv' split: prod.splits option.splits bool.splits)

lemma placed_step: "placed c st \<Longrightarrow> placed c (groupContainer d st)"
  by (cases st) (auto simp: placed_def groupContainer_def update_conv' split: prod.splits option.splits bool.splits)

lemma placed_fold_keep: "placed c st \<Longrightarrow> placed c (fold groupContainer cs st)"
  by (induction cs arbitrary: st) (auto simp: placed_step)

lemma placed_fold: "c \<in> set cs \<Longrightarrow> placed c (fold groupContainer cs st)"
proof (induction cs arbitrary: st)
  case Nil
  then show ?case by simp
next
  case (Cons a cs)
  show ?case
  proof (cases "c = a")
    case True
    then show ?thesis by (simp add: placed_now placed_fold_keep)
  next
    case False
    with Cons.prems have "c \<in> set cs" by simp
    then show ?thesis by (simp add: Cons.IH)
  qed
qed

text \<open>
  Claim C6. Whatever the listing and whatever the order in which Go visits the entries of
  \<open>composeProjects\<close>, \<open>GetContainerGroups\<close> returns groups whose members, taken together,
  are the listed instances, each as often as it is listed. An instance whose label
  \<open>com.docker.compose.project\<close> is present and not empty is a member of a compose group
  whose identifier is the value of the label, and there is one compose group per
  identifier. An instance whose label is absent or empty has a standalone group of its
  own, whose identifier is the instance's and whose only member it is; every standalone
  group has exactly one member. The member built for a listed instance carries the
  instance's identifier, image reference, state and labels, and its first name without
  the leading slash; so the identifiers of the members, taken together, are the
  identifiers of the listed instances.
\<close>

theorem GetContainerGroups_partition:
  assumes iter: "\<And>xs. mset (iter xs) = mset xs"
  shows "\<exists>groups. GetContainerGroups iter (Inr containers) = Inr groups
     \<and> mset (concat (map cg_Containers groups)) = mset (map containerInfo containers)
     \<and> (\<forall>c \<in> set containers. \<forall>m p.
            tc_Labels c = Some m \<and> m ''com.docker.compose.project'' = Some p \<and> p \<noteq> [] \<longrightarrow>
            (\<exists>g \<in> set groups. cg_ID g = p \<and> cg_Type g = GroupTypeCompose
                \<and> containerInfo c \<in> set (cg_Containers g)))
     \<and> (\<forall>c \<in> set containers.
            label (tc_Labels c) ''com.docker.compose.project'' = [] \<longrightarrow>
            (\<exists>g \<in> set groups. cg_ID g = tc_ID c \<and> cg_Type g = GroupTypeStandalone
                \<and> cg_Containers g = [containerInfo c]))
     \<and> distinct (map cg_ID (filter (\<lambda>g. cg_Type g = GroupTypeCompose) groups))
     \<and> (\<forall>g \<in> set groups. cg_Type g = GroupTypeStandalone \<longrightarrow> length (cg_Containers g) = 1)
     \<and> mset (map ci_ID (concat (map cg_Containers groups))) = mset (map tc_ID containers)
     \<and> (\<forall>c. containerInfo c =
            \<lparr> ci_ID = tc_ID c,
              ci_Name = (case tc_Names c of [] \<Rightarrow> []
                         | name # _ \<Rightarrow> if take 1 name = ''/'' then drop 1 name else name),
              ci_Image = tc_Image c, ci_ImageDigest = [], ci_LatestDigest = [],
              ci_State = tc_State c, ci_HasUpdate = False, ci_Labels = tc_Labels c \<rparr>)
     \<and> (\<forall>c. label (tc_Labels c) ''com.docker.compose.project'' = [] \<longleftrightarrow>
            (case tc_Labels c of None \<Rightarrow> True
             | Some m \<Rightarrow> m ''com.docker.compose.project'' = None
                         \<or> m ''com.docker.compose.project'' = Some []))"
proof -
  obtain cp sa where st: "fold groupContainer containers ([], []) = (cp, sa)"
    by (cases "fold groupContainer containers ([], [])") auto
  define fin where "fin = (\<lambda>(k :: string, grp :: ContainerGroup). grp\<lparr>cg_AllRunning := areAllContainersRunning (cg_Containers grp)\<rparr>)"
  define groups where "groups = map fin (iter cp) @ sa"
  have res: "GetContainerGroups iter (Inr containers) = Inr groups"
    by (simp add: GetContainerGroups_def st groups_def fin_def)
  have cok: "compose_ok cp"
    using compose_ok_fold[of "([], [])" containers] by (simp add: st compose_ok_def)
  have sok: "standalone_ok sa"
    using standalone_ok_fold[of "([], [])" containers] by (simp add: st standalone_ok_def)
  have set_iter: "set (iter cp) = set cp"
    using iter[of cp] by (metis set_mset_mset)
  have fin_c: "cg_Containers (fin kg) = cg_Containers (snd kg)" for kg
    by (cases kg) (simp add: fin_def)
  have fin_id: "cg_ID (fin kg) = cg_ID (snd kg)" "cg_Type (fin kg) = cg_Type (snd kg)" for kg
    by (cases kg; simp add: fin_def)+
  have m1: "mset (concat (map cg_Containers groups)) = mset (map containerInfo containers)"
  proof -
    have e: "cg_Containers \<circ> fin = cg_Containers \<circ> snd"
      by (rule ext) (simp add: fin_c)
    have "mset (concat (map cg_Containers groups)) =
          mset (concat (map (cg_Containers \<circ> snd) (iter cp))) + mset (concat (map cg_Containers sa))"
      by (simp add: groups_def e)
    also have "\<dots> = members (cp, sa)"
      by (simp only: mset_concat_perm[OF iter[of cp]] members_def fst_conv snd_conv)
    also have "\<dots> = mset (map containerInfo containers)"
      using members_fold[of containers "([], [])"] by (simp add: st members_def)
    finally show ?thesis .
  qed
  have pl: "placed c (cp, sa)" if "c \<in> set containers" for c
    using placed_fold[OF that, of "([], [])"] by (simp add: st)
  have m2: "\<exists>g \<in> set groups. cg_ID g = p \<and> cg_Type g = GroupTypeCompose
                \<and> containerInfo c \<in> set (cg_Containers g)"
    if "c \<in> set containers" "tc_Labels c = Some m" "m ''com.docker.compose.project'' = Some p" "p \<noteq> []"
    for c m p
  proof -
    have "IsComposeProject c = (True, p)" using that by (simp add: IsComposeProject_def)
    with pl[OF that(1)] obtain g where g: "map_of cp p = Some g" "containerInfo c \<in> set (cg_Containers g)"
      by (auto simp: placed_def)
    then have in_cp: "(p, g) \<in> set cp" by (auto dest: map_of_SomeD)
    with cok have "cg_ID g = p" "cg_Type g = GroupTypeCompose" by (auto simp: compose_ok_def)
    moreover have "fin (p, g) \<in> set groups" using in_cp set_iter by (auto simp: groups_def)
    ultimately show ?thesis using g(2) by (intro bexI[of _ "fin (p, g)"]) (simp_all add: fin_c fin_id)
  qed
  have m3: "\<exists>g \<in> set groups. cg_ID g = tc_ID c \<and> cg_Type g = GroupTypeStandalone
                \<and> cg_Containers g = [containerInfo c]"
    if "c \<in> set containers" "label (tc_Labels c) ''com.docker.compose.project'' = []" for c
  proof -
    have "fst (IsComposeProject c) = False" using that(2)
      by (auto simp: IsComposeProject_def label_def split: option.splits)
    with pl[OF that(1)] show ?thesis
      by (cases "IsComposeProject c") (auto simp: placed_def groups_def)
  qed
  have m4: "distinct (map cg_ID (filter (\<lambda>g. cg_Type g = GroupTypeCompose) groups))"
  proof -
    have a: "filter (\<lambda>g. cg_Type g = GroupTypeCompose) sa = []"
      using sok by (auto simp: standalone_ok_def filter_empty_conv)
    have b: "filter (\<lambda>g. cg_Type g = GroupTypeCompose) (map fin (iter cp)) = map fin (iter cp)"
      using cok set_iter by (auto simp: compose_ok_def fin_id filter_id_conv)
    have c: "map (cg_ID \<circ> fin) (iter cp) = map fst (iter cp)"
      using cok set_iter by (auto simp: compose_ok_def fin_id)
    have "mset (map fst (iter cp)) = mset (map fst cp)" using iter[of cp] by (metis mset_map)
    then have "distinct (map fst (iter cp))" using cok
      by (metis compose_ok_def mset_eq_imp_distinct_iff)
    then show ?thesis by (simp add: groups_def a b c)
  qed
  have m5: "\<forall>g \<in> set groups. cg_Type g = GroupTypeStandalone \<longrightarrow> length (cg_Containers g) = 1"
    using sok cok set_iter by (auto simp: groups_def standalone_ok_def compose_ok_def fin_id)
  have c2: "\<forall>c \<in> set containers. \<forall>m p.
            tc_Labels c = Some m \<and> m ''com.docker.compose.project'' = Some p \<and> p \<noteq> [] \<longrightarrow>
            (\<exists>g \<in> set groups. cg_ID g = p \<and> cg_Type g = GroupTypeCompose
                \<and> containerInfo c \<in> set (cg_Containers g))"
  proof (intro ballI allI impI)
    fix c m p
    assume "c \<in> set containers"
      and "tc_Labels c = Some m \<and> m ''com.docker.compose.project'' = Some p \<and> p \<noteq> []"
    then show "\<exists>g \<in> set groups. cg_ID g = p \<and> cg_Type g = GroupTypeCompose
                \<and> containerInfo c \<in> set (cg_Containers g)"
      by (intro m2 [of c m p]) simp_all
  qed
  have c3: "\<forall>c \<in> set containers.
            label (tc_Labels c) ''com.docker.compose.project'' = [] \<longrightarrow>
            (\<exists>g \<in> set groups. cg_ID g = tc_ID c \<and> cg_Type g = GroupTypeStandalone
                \<and> cg_Containers g = [containerInfo c])"
    by (intro ballI impI m3)
  have m6: "mset (map ci_ID (concat (map cg_Containers groups))) = mset (map tc_ID containers)"
  proof -
    have "image_mset ci_ID (mset (concat (map cg_Containers groups)))
          = image_mset ci_ID (mset (map containerInfo containers))"
      by (simp only: m1)
    moreover have "ci_ID \<circ> containerInfo = tc_ID"
      by (rule ext) (simp add: containerInfo_def)
    ultimately show ?thesis
      by (simp add: multiset.map_comp)
  qed
  have m7: "\<forall>c. containerInfo c =
            \<lparr> ci_ID = tc_ID c,
              ci_Name = (case tc_Names c of [] \<Rightarrow> []
                         | name # _ \<Rightarrow> if take 1 name = ''/'' then drop 1 name else name),
              ci_Image = tc_Image c, ci_ImageDigest = [], ci_LatestDigest = [],
              ci_State = tc_State c, ci_HasUpdate = False, ci_Labels = tc_Labels c \<rparr>"
    by (simp add: containerInfo_def getContainerName_def TrimPrefix_def HasPrefix_def
        split: list.split)
  have m8: "\<forall>c. label (tc_Labels c) ''com.docker.compose.project'' = [] \<longleftrightarrow>
            (case tc_Labels c of None \<Rightarrow> True
             | Some m \<Rightarrow> m ''com.docker.compose.project'' = None
                         \<or> m ''com.docker.compose.project'' = Some [])"
    by (simp add: label_def split: option.split)
  show ?thesis
    by (intro exI [of _ groups] conjI res m1 c2 c3 m4 m5 m6 m7 m8)
qed

theorem GetContainerGroups_partition_witness:
  "(\<forall>xs :: (string \<times> ContainerGroup) list. mset (rev xs) = mset xs)
   \<and> appWeb \<in> set [appWeb, standaloneRedis]
   \<and> tc_Labels appWeb = Some appLabels
   \<and> appLabels ''com.docker.compose.project'' = Some ''app'' \<and> ''app'' \<noteq> []
   \<and> standaloneRedis \<in> set [appWeb, standaloneRedis]
   \<and> label (tc_Labels standaloneRedis) ''com.docker.compose.project'' = []
   \<and> (\<exists>groups. GetContainerGroups rev (Inr [appWeb, standaloneRedis]) = Inr groups
        \<and> mset (concat (map cg_Containers groups))
            = mset (map containerInfo [appWeb, standaloneRedis])
        \<and> (\<exists>g \<in> set groups. cg_ID g = ''app'' \<and> cg_Type g = GroupTypeCompose
              \<and> containerInfo appWeb \<in> set (cg_Containers g))
        \<and> (\<exists>g \<in> set groups. cg_ID g = ''container2'' \<and> cg_Type g = GroupTypeStandalone
              \<and> cg_Containers g = [containerInfo standaloneRedis])
        \<and> (\<exists>g \<in> set groups. cg_Type g = GroupTypeStandalone \<and> length (cg_Containers g) = 1)
        \<and> mset (map ci_ID (concat (map cg_Containers groups)))
            = mset [''container1'', ''container2''])
   \<and> containerInfo appWeb =
        \<lparr> ci_ID = ''container1'', ci_Name = ''app-web-1'', ci_Image = ''nginx:latest'',
          ci_ImageDigest = [], ci_LatestDigest = [], ci_State = ''running'',
          ci_HasUpdate = False, ci_Labels = Some appLabels \<rparr>"
proof -
  let ?cs = "[appWeb, standaloneRedis]"
  have perm: "\<And>xs :: (string \<times> ContainerGroup) list. mset (rev xs) = mset xs"
    by simp
  have l1: "tc_Labels appWeb = Some appLabels"
    by (simp add: appWeb_def)
  have l2: "appLabels ''com.docker.compose.project'' = Some ''app''"
    by (simp add: appLabels_def)
  have l3: "label (tc_Labels standaloneRedis) ''com.docker.compose.project'' = []"
    by (simp add: standaloneRedis_def label_def)
  have i2: "tc_ID standaloneRedis = ''container2''"
    by (simp add: standaloneRedis_def)
  have in1: "appWeb \<in> set ?cs" and in2: "standaloneRedis \<in> set ?cs"
    by simp_all
  from GetContainerGroups_partition [OF perm, of ?cs]
  obtain groups where G:
    "GetContainerGroups rev (Inr ?cs) = Inr groups
     \<and> mset (concat (map cg_Containers groups)) = mset (map containerInfo ?cs)
     \<and> (\<forall>c \<in> set ?cs. \<forall>m p.
            tc_Labels c = Some m \<and> m ''com.docker.compose.project'' = Some p \<and> p \<noteq> [] \<longrightarrow>
            (\<exists>g \<in> set groups. cg_ID g = p \<and> cg_Type g = GroupTypeCompose
                \<and> containerInfo c \<in> set (cg_Containers g)))
     \<and> (\<forall>c \<in> set ?cs.
            label (tc_Labels c) ''com.docker.compose.project'' = [] \<longrightarrow>
            (\<exists>g \<in> set groups. cg_ID g = tc_ID c \<and> cg_Type g = GroupTypeStandalone
                \<and> cg_Containers g = [containerInfo c]))
     \<and> distinct (map cg_ID (filter (\<lambda>g. cg_Type g = GroupTypeCompose) groups))
     \<and> (\<forall>g \<in> set groups. cg_Type g = GroupTypeStandalone \<longrightarrow> length (cg_Containers g) = 1)
     \<and> mset (map ci_ID (concat (map cg_Containers groups))) = mset (map tc_ID ?cs)
     \<and> (\<forall>c. containerInfo c =
            \<lparr> ci_ID = tc_ID c,
              ci_Name = (case tc_Names c of [] \<Rightarrow> []
                         | name # _ \<Rightarrow> if take 1 name = ''/'' then drop 1 name else name),
              ci_Image = tc_Image c, ci_ImageDigest = [], ci_LatestDigest = [],
              ci_State = tc_State c, ci_HasUpdate = False, ci_Labels = tc_Labels c \<rparr>)
     \<and> (\<forall>c. label (tc_Labels c) ''com.docker.compose.project'' = [] \<longleftrightarrow>
            (case tc_Labels c of None \<Rightarrow> True
             | Some m \<Rightarrow> m ''com.docker.compose.project'' = None
                         \<or> m ''com.docker.compose.project'' = Some []))" ..
  note res = G [THEN conjunct1]
  note all = G [THEN conjunct2, THEN conjunct1]
  note comp = G [THEN conjunct2, THEN conjunct2, THEN conjunct1, rule_format]
  note alone = G [THEN conjunct2, THEN conjunct2, THEN conjunct2, THEN conjunct1, rule_format]
  note rest = G [THEN conjunct2, THEN conjunct2, THEN conjunct2, THEN conjunct2, THEN conjunct2]
  note one = rest [THEN conjunct1, rule_format]
  note ids = rest [THEN conjunct2, THEN conjunct1]
  note info = rest [THEN conjunct2, THEN conjunct2, THEN conjunct1, rule_format]
  have ids': "mset (map ci_ID (concat (map cg_Containers groups)))
            = mset [''container1'', ''container2'']"
    using ids by (simp add: appWeb_def standaloneRedis_def)
  have info': "containerInfo appWeb =
        \<lparr> ci_ID = ''container1'', ci_Name = ''app-web-1'', ci_Image = ''nginx:latest'',
          ci_ImageDigest = [], ci_LatestDigest = [], ci_State = ''running'',
          ci_HasUpdate = False, ci_Labels = Some appLabels \<rparr>"
    using info [of appWeb] by (simp add: appWeb_def)
  have ne: "''app'' \<noteq> []"
    by simp
  have g1: "\<exists>g \<in> set groups. cg_ID g = ''app'' \<and> cg_Type g = GroupTypeCompose
              \<and> containerInfo appWeb \<in> set (cg_Containers g)"
    by (rule comp [OF in1, of appLabels "''app''"]) (intro conjI l1 l2 ne)
  have g2': "\<exists>g \<in> set groups. cg_ID g = tc_ID standaloneRedis \<and> cg_Type g = GroupTypeStandalone
              \<and> cg_Containers g = [containerInfo standaloneRedis]"
    by (rule alone [OF in2 l3])
  then have g2: "\<exists>g \<in> set groups. cg_ID g = ''container2'' \<and> cg_Type g = GroupTypeStandalone
              \<and> cg_Containers g = [containerInfo standaloneRedis]"
    by (simp only: i2)
  from g2 obtain g where g: "g \<in> set groups" "cg_Type g = GroupTypeStandalone"
    by (elim bexE conjE)
  then have "length (cg_Containers g) = 1"
    by (rule one)
  with g have g3: "\<exists>g \<in> set groups. cg_Type g = GroupTypeStandalone \<and> length (cg_Containers g) = 1"
    by (intro bexI [of _ g] conjI)
  have ex: "\<exists>groups. GetContainerGroups rev (Inr ?cs) = Inr groups
        \<and> mset (concat (map cg_Containers groups)) = mset (map containerInfo ?cs)
        \<and> (\<exists>g \<in> set groups. cg_ID g = ''app'' \<and> cg_Type g = GroupTypeCompose
              \<and> containerInfo appWeb \<in> set (cg_Containers g))
        \<and> (\<exists>g \<in> set groups. cg_ID g = ''container2'' \<and> cg_Type g = GroupTypeStandalone
              \<and> cg_Containers g = [containerInfo standaloneRedis])
        \<and> (\<exists>g \<in> set groups. cg_Type g = GroupTypeStandalone \<and> length (cg_Containers g) = 1)
        \<and> mset (map ci_ID (concat (map cg_Containers groups)))
            = mset [''container1'', ''container2'']"
    by (intro exI [of _ groups] conjI res all g1 g2 g3 ids')
  from perm have perm': "\<forall>xs :: (string \<times> ContainerGroup) list. mset (rev xs) = mset xs"
    by (rule allI)
  show ?thesis
    by (intro conjI perm' in1 in2 l1 l2 l3 ne ex info')
qed

section \<open>Properties of the local-image heuristic\<close>

lemma Contains_single: "Contains s [c] = (c \<in> set s)"
  by (induction s) (auto simp: HasPrefix_def)

lemma Split_not_Nil: "Split s sep \<noteq> []"
  by (induction s) (auto split: list.splits)

lemma Split_first: "Split s sep ! 0 = takeWhile (\<lambda>c. c \<noteq> sep) s"
  by (induction s) (auto simp: Split_not_Nil split: list.splits)

lemma SplitN2_length: "(length (SplitN2 s sep) > 1) = (sep \<in> set s)"
  by (simp add: SplitN2_def)

lemma takeWhile_absent: "sep \<notin> set s \<Longrightarrow> takeWhile (\<lambda>c. c \<noteq> sep) s = s"
  by (induction s) auto

lemma SplitN2_first: "SplitN2 s sep ! 0 = takeWhile (\<lambda>c. c \<noteq> sep) s"
  by (simp add: SplitN2_def takeWhile_absent)

lemma slash_before_colon:
  assumes "CHR ''/'' \<in> set s" and "CHR '':'' \<notin> set (takeWhile (\<lambda>c. c \<noteq> CHR ''/'') s)"
  shows "CHR ''/'' \<in> set (takeWhile (\<lambda>c. c \<noteq> CHR '':'') s)"
  using assms by (induction s) (auto split: if_splits)

text \<open>
  Claim C8, as amended. An image reference is classified local exactly when it starts
  with \<open>sha256:\<close>, or starts with \<open>localhost/\<close> or \<open>localhost:\<close>, or contains no slash at
  all and has a hyphen or an underscore before its first colon. In particular
  \<open>sha256:deadbeef\<close>, \<open>localhost/app:dev\<close> and \<open>myproject-web:latest\<close> are local, and
  \<open>nginx:latest\<close> and \<open>registry.example.com/team/app:1.0\<close> are registry-sourced.
\<close>

theorem isLocalImage_iff:
  "(isLocalImage s \<longleftrightarrow>
     HasPrefix s ''sha256:'' \<or> HasPrefix s ''localhost/'' \<or> HasPrefix s ''localhost:'' \<or>
     (CHR ''/'' \<notin> set s \<and>
      (CHR ''-'' \<in> set (takeWhile (\<lambda>c. c \<noteq> CHR '':'') s) \<or>
       CHR ''_'' \<in> set (takeWhile (\<lambda>c. c \<noteq> CHR '':'') s))))
   \<and> isLocalImage ''sha256:deadbeef''
   \<and> isLocalImage ''localhost/app:dev''
   \<and> isLocalImage ''myproject-web:latest''
   \<and> \<not> isLocalImage ''nginx:latest''
   \<and> \<not> isLocalImage ''registry.example.com/team/app:1.0''"
proof -
  have general: "isLocalImage s \<longleftrightarrow>
     HasPrefix s ''sha256:'' \<or> HasPrefix s ''localhost/'' \<or> HasPrefix s ''localhost:'' \<or>
     (CHR ''/'' \<notin> set s \<and>
      (CHR ''-'' \<in> set (takeWhile (\<lambda>c. c \<noteq> CHR '':'') s) \<or>
       CHR ''_'' \<in> set (takeWhile (\<lambda>c. c \<noteq> CHR '':'') s)))" for s
    unfolding isLocalImage_def Let_def Contains_single Split_first SplitN2_first SplitN2_length
    using slash_before_colon [of s] by (auto dest: set_takeWhileD)
  have e1: "isLocalImage ''sha256:deadbeef''"
    by (simp add: isLocalImage_def HasPrefix_def)
  have e2: "isLocalImage ''localhost/app:dev''"
    by (simp add: isLocalImage_def HasPrefix_def)
  have e3: "isLocalImage ''myproject-web:latest''"
    by (simp add: isLocalImage_def HasPrefix_def SplitN2_def)
  have e4: "\<not> isLocalImage ''nginx:latest''"
    by (simp add: isLocalImage_def HasPrefix_def SplitN2_def)
  have e5: "\<not> isLocalImage ''registry.example.com/team/app:1.0''"
    by (simp add: isLocalImage_def HasPrefix_def SplitN2_def)
  show ?thesis
    by (intro conjI general e1 e2 e3 e4 e5)
qed

text \<open>The amended rule at a reference without slash: \<open>bleedingedge_app:dev\<close> has an
  underscore before its colon.\<close>

theorem isLocalImage_iff_witness:
  "CHR ''/'' \<notin> set ''bleedingedge_app:dev''
   \<and> CHR ''_'' \<in> set (takeWhile (\<lambda>c. c \<noteq> CHR '':'') ''bleedingedge_app:dev'')
   \<and> isLocalImage ''bleedingedge_app:dev''"
  using isLocalImage_iff [of "''bleedingedge_app:dev''"] by simp

text \<open>
  Claim C8 as stated fails: \<open>grafana/grafana-oss:latest\<close> has neither a dot nor a colon
  in its first path component (\<open>parts[0]\<close> of the source, \<open>grafana\<close>) and a hyphen in its
  base name (\<open>baseName\<close> of the source, \<open>grafana/grafana-oss\<close>), and is classified
  registry-sourced, because the base name contains a slash.
\<close>

theorem isLocalImage_slash_counterexample:
  "\<not> Contains (SplitN2 ''grafana/grafana-oss:latest'' (CHR ''/'') ! 0) ''.''
   \<and> \<not> Contains (SplitN2 ''grafana/grafana-oss:latest'' (CHR ''/'') ! 0) '':''
   \<and> Contains (Split ''grafana/grafana-oss:latest'' (CHR '':'') ! 0) ''-''
   \<and> \<not> isLocalImage ''grafana/grafana-oss:latest''"
  by (simp add: isLocalImage_def HasPrefix_def SplitN2_def)

section \<open>Properties of the configuration extractor\<close>



section \<open>Properties of the standalone recreation\<close>

lemma recording_simps:
  "InspectContainer (recording client) cid (w, tr) =
     (case InspectContainer client cid w of (r, w') \<Rightarrow> (r, (w', tr @ [(CallInspect cid, \<not> isl r)])))"
  "PullImage (recording client) img (w, tr) =
     (case PullImage client img w of (r, w') \<Rightarrow> (r, (w', tr @ [(CallPull img, r = None)])))"
  "GetImageDigest (recording client) img (w, tr) =
     (case GetImageDigest client img w of (r, w') \<Rightarrow> (r, (w', tr @ [(CallDigest img, \<not> isl r)])))"
  "StartContainer (recording client) cid (w, tr) =
     (case StartContainer client cid w of (r, w') \<Rightarrow> (r, (w', tr @ [(CallStart cid, r = None)])))"
  "StopContainer (recording client) cid (w, tr) =
     (case StopContainer client cid w of (r, w') \<Rightarrow> (r, (w', tr @ [(CallStop cid, r = None)])))"
  "RemoveContainer (recording client) cid (w, tr) =
     (case RemoveContainer client cid w of (r, w') \<Rightarrow> (r, (w', tr @ [(CallRemove cid, r = None)])))"
  "CreateContainer (recording client) config hostConfig name (w, tr) =
     (case CreateContainer client config hostConfig name w of
        (r, w') \<Rightarrow> (r, (w', tr @ [(CallCreate config hostConfig name, \<not> isl r)])))"
  by (simp_all add: recording_def)

text \<open>Every run of \<open>UpdateStandaloneContainer\<close> against a recording client is one of eight:
  it stops at the first call that fails, or at a failing extraction, or runs to the
  end.\<close>

lemma update_cases:
  assumes run: "UpdateStandaloneContainer (recording client) containerID (w, []) = (err, w', tr)"
    and on_inspect: "\<And>e w1. InspectContainer client containerID w = (Inl e, w1) \<Longrightarrow>
          P (Some (''failed to inspect container '' @ containerID @ '': '' @ e))
            [(CallInspect containerID, False)]"
    and on_extract: "\<And>j w1 e. InspectContainer client containerID w = (Inr j, w1) \<Longrightarrow>
          ExtractContainerParams j = Inl e \<Longrightarrow>
          P (Some (''failed to extract container parameters for '' @ containerID @ '': '' @ e))
            [(CallInspect containerID, True)]"
    and on_pull: "\<And>j w1 params e. InspectContainer client containerID w = (Inr j, w1) \<Longrightarrow>
          ExtractContainerParams j = Inr params \<Longrightarrow>
          P (Some (''failed to pull latest image '' @ cp_Image params @ '': '' @ e))
            [(CallInspect containerID, True), (CallPull (cp_Image params), False)]"
    and on_stop: "\<And>j w1 params e. InspectContainer client containerID w = (Inr j, w1) \<Longrightarrow>
          ExtractContainerParams j = Inr params \<Longrightarrow>
          P (Some (''failed to stop container '' @ containerID @ '': '' @ e))
            [(CallInspect containerID, True), (CallPull (cp_Image params), True),
             (CallStop containerID, False)]"
    and on_remove: "\<And>j w1 params e. InspectContainer client containerID w = (Inr j, w1) \<Longrightarrow>
          ExtractContainerParams j = Inr params \<Longrightarrow>
          P (Some (''failed to remove container '' @ containerID @ '': '' @ e))
            [(CallInspect containerID, True), (CallPull (cp_Image params), True),
             (CallStop containerID, True), (CallRemove containerID, False)]"
    and on_create: "\<And>j w1 params e. InspectContainer client containerID w = (Inr j, w1) \<Longrightarrow>
          ExtractContainerParams j = Inr params \<Longrightarrow>
          P (Some (''failed to create new container '' @ cp_Name params @ '': '' @ e))
            [(CallInspect containerID, True), (CallPull (cp_Image params), True),
             (CallStop containerID, True), (CallRemove containerID, True),
             (CallCreate (createConfig params) (createHostConfig params) (cp_Name params), False)]"
    and on_start: "\<And>j w1 params newID e. InspectContainer client containerID w = (Inr j, w1) \<Longrightarrow>
          ExtractContainerParams j = Inr params \<Longrightarrow>
          P (Some (''failed to start new container '' @ newID @ '': '' @ e))
            [(CallInspect containerID, True), (CallPull (cp_Image params), True),
             (CallStop containerID, True), (CallRemove containerID, True),
             (CallCreate (createConfig params) (createHostConfig params) (cp_Name params), True),
             (CallStart newID, False)]"
    and on_finished: "\<And>j w1 params newID. InspectContainer client containerID w = (Inr j, w1) \<Longrightarrow>
          ExtractContainerParams j = Inr params \<Longrightarrow>
          P None
            [(CallInspect containerID, True), (CallPull (cp_Image params), True),
             (CallStop containerID, True), (CallRemove containerID, True),
             (CallCreate (createConfig params) (createHostConfig params) (cp_Name params), True),
             (CallStart newID, True)]"
  shows "P err tr"
proof -
  note defs = UpdateStandaloneContainer_def recording_simps Let_def
    createConfig_def [symmetric] createHostConfig_def [symmetric]
  obtain r1 w1 where i: "InspectContainer client containerID w = (r1, w1)"
    by (cases "InspectContainer client containerID w")
  show ?thesis
  proof (cases r1)
    case (Inl e)
    with i run on_inspect [of e w1] show ?thesis
      by (simp add: defs)
  next
    case (Inr j)
    note j = i [unfolded Inr]
    show ?thesis
    proof (cases "ExtractContainerParams j")
      case (Inl e)
      with j run on_extract [of j w1 e] show ?thesis
        by (simp add: defs)
    next
      case (Inr params)
      note p = this
      obtain r2 w2 where pl: "PullImage client (cp_Image params) w1 = (r2, w2)"
        by (cases "PullImage client (cp_Image params) w1")
      show ?thesis
      proof (cases r2)
        case (Some e)
        with j p pl run on_pull [of j w1 params e] show ?thesis
          by (simp add: defs)
      next
        case None
        note pl = pl [unfolded None]
        obtain r3 w3 where st: "StopContainer client containerID w2 = (r3, w3)"
          by (cases "StopContainer client containerID w2")
        show ?thesis
        proof (cases r3)
          case (Some e)
          with j p pl st run on_stop [of j w1 params e] show ?thesis
            by (simp add: defs)
        next
          case None
          note st = st [unfolded None]
          obtain r4 w4 where rm: "RemoveContainer client containerID w3 = (r4, w4)"
            by (cases "RemoveContainer client containerID w3")
          show ?thesis
          proof (cases r4)
            case (Some e)
            with j p pl st rm run on_remove [of j w1 params e] show ?thesis
              by (simp add: defs)
          next
            case None
            note rm = rm [unfolded None]
            obtain r5 w5 where cr: "CreateContainer client (createConfig params)
                (createHostConfig params) (cp_Name params) w4 = (r5, w5)"
              by (cases "CreateContainer client (createConfig params)
                (createHostConfig params) (cp_Name params) w4")
            show ?thesis
            proof (cases r5)
              case (Inl e)
              with j p pl st rm cr run on_create [of j w1 params e] show ?thesis
                by (simp add: defs)
            next
              case (Inr newID)
              note cr = cr [unfolded Inr]
              obtain r6 w6 where sa: "StartContainer client newID w5 = (r6, w6)"
                by (cases "StartContainer client newID w5")
              show ?thesis
              proof (cases r6)
                case (Some e)
                with j p pl st rm cr sa run on_start [of j w1 params newID e] show ?thesis
                  by (simp add: defs)
              next
                case None
                with j p pl st rm cr sa run on_finished [of j w1 params newID] show ?thesis
                  by (simp add: defs)
              qed
            qed
          qed
        qed
      qed
    qed
  qed
qed

text \<open>The two test cases, run.\<close>

lemma successMock_run:
  "UpdateStandaloneContainer (recording successMock) ''container123'' ((), [])
     = (None, (), successTrace)"
  by (simp add: UpdateStandaloneContainer_def recording_simps successMock_def testContainer_def
      ExtractContainerParams_def TrimPrefix_def HasPrefix_def Let_def successTrace_def
      testCreateConfig_def testCreateHostConfig_def)





lemma extract_networks:
  "ExtractContainerParams (j\<lparr>cj_NetworkSettings := ns\<rparr>) =
     (case ExtractContainerParams j of Inl e \<Rightarrow> Inl e
      | Inr params \<Rightarrow> Inr (params\<lparr>cp_Networks :=
          (case ns of None \<Rightarrow> []
           | Some s \<Rightarrow> (case ns_Networks s of None \<Rightarrow> [] | Some nets \<Rightarrow> map fst nets))\<rparr>))"
  by (simp add: ExtractContainerParams_def Let_def split: option.split)

lemma networks_ignored:
  "UpdateStandaloneContainer (recording (withNetworkSettings ns client)) containerID (w, tr0)
     = UpdateStandaloneContainer (recording client) containerID (w, tr0)"
  by (simp add: UpdateStandaloneContainer_def recording_def withNetworkSettings_def
      extract_networks Let_def split: prod.split sum.split option.split)

lemma extract_Inr:
  assumes "ExtractContainerParams j = Inr params"
  shows "\<exists>config hostConfig. cj_Config j = Some config \<and> cj_HostConfig j = Some hostConfig
     \<and> createConfig params =
          \<lparr> cfg_Image = cfg_Image config, cfg_Env = cfg_Env config, cfg_Cmd = cfg_Cmd config,
            cfg_Entrypoint = cfg_Entrypoint config, cfg_Labels = cfg_Labels config,
            cfg_ExposedPorts =
              Some (case hc_PortBindings hostConfig of None \<Rightarrow> {} | Some pm \<Rightarrow> dom pm),
            cfg_User = [] \<rparr>
     \<and> createHostConfig params =
          \<lparr> hc_PortBindings =
              Some (case hc_PortBindings hostConfig of None \<Rightarrow> Map.empty | Some pm \<Rightarrow> pm),
            hc_Binds = Some (case hc_Binds hostConfig of None \<Rightarrow> [] | Some bs \<Rightarrow> bs),
            hc_RestartPolicy = hc_RestartPolicy hostConfig,
            hc_Resources = hc_Resources hostConfig, hc_NetworkMode = [] \<rparr>
     \<and> cp_Name params = (if take 1 (cj_Name j) = ''/'' then drop 1 (cj_Name j) else cj_Name j)"
  using assms
  by (auto simp: ExtractContainerParams_def Let_def createConfig_def createHostConfig_def
      TrimPrefix_def HasPrefix_def split: option.splits)

text \<open>
  Claim C10. Whenever \<open>UpdateStandaloneContainer\<close> calls \<open>CreateContainer\<close>, which it does at
  most once in a run, the inspection succeeded with a record that has a \<open>Config\<close> and a
  \<open>HostConfig\<close>, and the arguments are: a configuration with the record's image,
  environment, command, entrypoint and labels, with the keys of the record's port
  bindings as exposed ports, and with every other field at its zero value; a host
  configuration with the record's port bindings, binds, restart policy and resources,
  and with every other field, the network mode among them, at its zero value; and the
  record's name without its leading slash. The network settings of the record are
  passed nowhere: the run, its calls and their arguments are the same whatever network
  settings the inspection reports.
\<close>

theorem UpdateStandaloneContainer_create_args:
  assumes run: "UpdateStandaloneContainer (recording client) containerID (w, []) = (err, w', tr)"
  shows
   "(\<forall>c h n ok. (CallCreate c h n, ok) \<in> set tr \<longrightarrow>
      (\<exists>j w1 config hostConfig.
         InspectContainer client containerID w = (Inr j, w1)
         \<and> cj_Config j = Some config \<and> cj_HostConfig j = Some hostConfig
         \<and> c = \<lparr> cfg_Image = cfg_Image config, cfg_Env = cfg_Env config, cfg_Cmd = cfg_Cmd config,
                 cfg_Entrypoint = cfg_Entrypoint config, cfg_Labels = cfg_Labels config,
                 cfg_ExposedPorts =
                   Some (case hc_PortBindings hostConfig of None \<Rightarrow> {} | Some pm \<Rightarrow> dom pm),
                 cfg_User = [] \<rparr>
         \<and> h = \<lparr> hc_PortBindings =
                   Some (case hc_PortBindings hostConfig of None \<Rightarrow> Map.empty | Some pm \<Rightarrow> pm),
                 hc_Binds = Some (case hc_Binds hostConfig of None \<Rightarrow> [] | Some bs \<Rightarrow> bs),
                 hc_RestartPolicy = hc_RestartPolicy hostConfig,
                 hc_Resources = hc_Resources hostConfig, hc_NetworkMode = [] \<rparr>
         \<and> n = (if take 1 (cj_Name j) = ''/'' then drop 1 (cj_Name j) else cj_Name j)))
    \<and> (\<forall>ns. UpdateStandaloneContainer (recording (withNetworkSettings ns client)) containerID (w, [])
            = (err, w', tr))
    \<and> length (filter (\<lambda>ev. \<exists>c h n. fst ev = CallCreate c h n) tr) \<le> 1"
proof -
  let ?Q = "\<lambda>c h n. \<exists>j w1 config hostConfig.
         InspectContainer client containerID w = (Inr j, w1)
         \<and> cj_Config j = Some config \<and> cj_HostConfig j = Some hostConfig
         \<and> c = \<lparr> cfg_Image = cfg_Image config, cfg_Env = cfg_Env config, cfg_Cmd = cfg_Cmd config,
                 cfg_Entrypoint = cfg_Entrypoint config, cfg_Labels = cfg_Labels config,
                 cfg_ExposedPorts =
                   Some (case hc_PortBindings hostConfig of None \<Rightarrow> {} | Some pm \<Rightarrow> dom pm),
                 cfg_User = [] \<rparr>
         \<and> h = \<lparr> hc_PortBindings =
                   Some (case hc_PortBindings hostConfig of None \<Rightarrow> Map.empty | Some pm \<Rightarrow> pm),
                 hc_Binds = Some (case hc_Binds hostConfig of None \<Rightarrow> [] | Some bs \<Rightarrow> bs),
                 hc_RestartPolicy = hc_RestartPolicy hostConfig,
                 hc_Resources = hc_Resources hostConfig, hc_NetworkMode = [] \<rparr>
         \<and> n = (if take 1 (cj_Name j) = ''/'' then drop 1 (cj_Name j) else cj_Name j)"
  have q: "?Q (createConfig params) (createHostConfig params) (cp_Name params)"
    if "InspectContainer client containerID w = (Inr j, w1)" "ExtractContainerParams j = Inr params"
    for j w1 params
    using extract_Inr [OF that(2)] that(1) by (elim exE conjE) (intro exI conjI; assumption)
  have p1: "\<forall>c h n ok. (CallCreate c h n, ok) \<in> set tr \<longrightarrow> ?Q c h n"
  proof (rule update_cases [OF run])
    fix j w1 params e
    assume a: "InspectContainer client containerID w = (Inr j, w1)" "ExtractContainerParams j = Inr params"
    show "\<forall>c h n ok. (CallCreate c h n, ok) \<in> set [(CallInspect containerID, True), (CallPull (cp_Image params), True),
             (CallStop containerID, True), (CallRemove containerID, True),
             (CallCreate (createConfig params) (createHostConfig params) (cp_Name params), False)] \<longrightarrow> ?Q c h n"
      using q [OF a] by simp
  next
    fix j w1 params newID e
    assume a: "InspectContainer client containerID w = (Inr j, w1)" "ExtractContainerParams j = Inr params"
    show "\<forall>c h n ok. (CallCreate c h n, ok) \<in> set [(CallInspect containerID, True), (CallPull (cp_Image params), True),
             (CallStop containerID, True), (CallRemove containerID, True),
             (CallCreate (createConfig params) (createHostConfig params) (cp_Name params), True),
             (CallStart newID, False)] \<longrightarrow> ?Q c h n"
      using q [OF a] by simp
  next
    fix j w1 params newID
    assume a: "InspectContainer client containerID w = (Inr j, w1)" "ExtractContainerParams j = Inr params"
    show "\<forall>c h n ok. (CallCreate c h n, ok) \<in> set [(CallInspect containerID, True), (CallPull (cp_Image params), True),
             (CallStop containerID, True), (CallRemove containerID, True),
             (CallCreate (createConfig params) (createHostConfig params) (cp_Name params), True),
             (CallStart newID, True)] \<longrightarrow> ?Q c h n"
      using q [OF a] by simp
  qed simp_all
  have p2: "\<forall>ns. UpdateStandaloneContainer (recording (withNetworkSettings ns client)) containerID (w, [])
            = (err, w', tr)"
    by (simp add: networks_ignored run)
  have p3: "length (filter (\<lambda>ev. \<exists>c h n. fst ev = CallCreate c h n) tr) \<le> 1"
    by (rule update_cases [OF run]) simp_all
  show ?thesis
    by (intro conjI p1 p2 p3)
qed

theorem UpdateStandaloneContainer_create_args_witness:
  "UpdateStandaloneContainer (recording successMock) ''container123'' ((), [])
     = (None, (), successTrace)
   \<and> (CallCreate testCreateConfig testCreateHostConfig ''test-container'', True) \<in> set successTrace
   \<and> (\<exists>config hostConfig.
         cj_Config testContainer = Some config \<and> cj_HostConfig testContainer = Some hostConfig
         \<and> cfg_Image testCreateConfig = cfg_Image config
         \<and> cfg_Env testCreateConfig = cfg_Env config
         \<and> hc_Binds testCreateHostConfig = Some (case hc_Binds hostConfig of None \<Rightarrow> [] | Some bs \<Rightarrow> bs)
         \<and> hc_NetworkMode testCreateHostConfig = [])
   \<and> UpdateStandaloneContainer
         (recording (withNetworkSettings
            (Some \<lparr> ns_Networks = Some [(''backend'', \<lparr> es_NetworkID = ''n1'' \<rparr>)] \<rparr>) successMock))
         ''container123'' ((), [])
       = (None, (), successTrace)"
proof -
  note T = UpdateStandaloneContainer_create_args [OF successMock_run]
  have c: "(CallCreate testCreateConfig testCreateHostConfig ''test-container'', True) \<in> set successTrace"
    by (simp add: successTrace_def)
  from T [THEN conjunct1, rule_format, OF c]
  obtain j w1 config hostConfig where
    i: "InspectContainer successMock ''container123'' () = (Inr j, w1)" and
    f: "cj_Config j = Some config" "cj_HostConfig j = Some hostConfig" and
    cc: "testCreateConfig = \<lparr> cfg_Image = cfg_Image config, cfg_Env = cfg_Env config, cfg_Cmd = cfg_Cmd config,
                 cfg_Entrypoint = cfg_Entrypoint config, cfg_Labels = cfg_Labels config,
                 cfg_ExposedPorts =
                   Some (case hc_PortBindings hostConfig of None \<Rightarrow> {} | Some pm \<Rightarrow> dom pm),
                 cfg_User = [] \<rparr>" and
    hh: "testCreateHostConfig = \<lparr> hc_PortBindings =
                   Some (case hc_PortBindings hostConfig of None \<Rightarrow> Map.empty | Some pm \<Rightarrow> pm),
                 hc_Binds = Some (case hc_Binds hostConfig of None \<Rightarrow> [] | Some bs \<Rightarrow> bs),
                 hc_RestartPolicy = hc_RestartPolicy hostConfig,
                 hc_Resources = hc_Resources hostConfig, hc_NetworkMode = [] \<rparr>"
    by (elim exE conjE)
  from i have j: "j = testContainer"
    by (simp add: successMock_def)
  have d: "\<exists>config hostConfig.
         cj_Config testContainer = Some config \<and> cj_HostConfig testContainer = Some hostConfig
         \<and> cfg_Image testCreateConfig = cfg_Image config
         \<and> cfg_Env testCreateConfig = cfg_Env config
         \<and> hc_Binds testCreateHostConfig = Some (case hc_Binds hostConfig of None \<Rightarrow> [] | Some bs \<Rightarrow> bs)
         \<and> hc_NetworkMode testCreateHostConfig = []"
  proof (intro exI [of _ config] exI [of _ hostConfig] conjI)
    show "cj_Config testContainer = Some config" "cj_HostConfig testContainer = Some hostConfig"
      using f j by simp_all
    show "cfg_Image testCreateConfig = cfg_Image config" "cfg_Env testCreateConfig = cfg_Env config"
      by (subst cc, simp)+
    show "hc_Binds testCreateHostConfig = Some (case hc_Binds hostConfig of None \<Rightarrow> [] | Some bs \<Rightarrow> bs)"
      "hc_NetworkMode testCreateHostConfig = []"
      by (subst hh, simp)+
  qed
  have e: "UpdateStandaloneContainer
         (recording (withNetworkSettings
            (Some \<lparr> ns_Networks = Some [(''backend'', \<lparr> es_NetworkID = ''n1'' \<rparr>)] \<rparr>) successMock))
         ''container123'' ((), [])
       = (None, (), successTrace)"
    by (rule T [THEN conjunct2, THEN conjunct1, rule_format])
  show ?thesis
    by (intro conjI successMock_run c d e)
qed

section \<open>Properties of the grouped update\<close>

lemma pullImages_recording:
  assumes "pullImages (recording client) projectName images (w, tr0) = (e, w', tr')"
  shows "\<exists>k. (case e of
            None \<Rightarrow> k = length images \<and> tr' = tr0 @ map pulled images
          | Some m \<Rightarrow> k < length images
              \<and> tr' = tr0 @ map pulled (take k images) @ [(CallPull (images ! k), False)]
              \<and> (\<exists>c. m = ''failed to pull image '' @ images ! k @ '' for project '' @ projectName
                        @ '': '' @ c))"
  using assms
proof (induction images arbitrary: w tr0)
  case Nil
  then show ?case by simp
next
  case (Cons img images)
  obtain r w1 where p: "PullImage client img w = (r, w1)"
    by (cases "PullImage client img w")
  show ?case
  proof (cases r)
    case (Some c)
    with p Cons.prems have "e = Some (''failed to pull image '' @ img @ '' for project '' @ projectName
                        @ '': '' @ c)" "tr' = tr0 @ [(CallPull img, False)]"
      by (simp_all add: recording_simps)
    then show ?thesis
      by (intro exI [of _ 0]) simp
  next
    case None
    with p Cons.prems have "pullImages (recording client) projectName images
        (w1, tr0 @ [(CallPull img, True)]) = (e, w', tr')"
      by (simp add: recording_simps)
    from Cons.IH [OF this] obtain k where k: "case e of
            None \<Rightarrow> k = length images \<and> tr' = (tr0 @ [(CallPull img, True)]) @ map pulled images
          | Some m \<Rightarrow> k < length images
              \<and> tr' = (tr0 @ [(CallPull img, True)]) @ map pulled (take k images) @ [(CallPull (images ! k), False)]
              \<and> (\<exists>c. m = ''failed to pull image '' @ images ! k @ '' for project '' @ projectName
                        @ '': '' @ c)" ..
    show ?thesis
    proof (cases e)
      case None
      with k show ?thesis by (intro exI [of _ "Suc k"]) (simp add: pulled_def)
    next
      case (Some m)
      with k show ?thesis by (intro exI [of _ "Suc k"]) (simp add: pulled_def)
    qed
  qed
qed

lemma pullImages_recording_same:
  "fst (pullImages (recording client) projectName images (w, tr0)) = fst (pullImages client projectName images w)
   \<and> fst (snd (pullImages (recording client) projectName images (w, tr0))) = snd (pullImages client projectName images w)"
  by (induction images arbitrary: w tr0) (simp_all add: recording_simps split: prod.split option.split)

lemma recordingExec_simp:
  "recordingExec exec dir argv (w, tr) =
     (case exec dir argv w of (r, w') \<Rightarrow> (r, (w', tr @ [(CallExec dir argv, fst r = None)])))"
  by (simp add: recordingExec_def)

lemma compose_cases:
  assumes run: "UpdateComposeProject (recording client) (recordingExec exec) projectName workDir
                  images (w, []) = (err, w', tr)"
    and wd: "workDir \<noteq> []"
    and on_pull: "\<And>k c. k < length images \<Longrightarrow>
          P (Some (''failed to pull image '' @ images ! k @ '' for project '' @ projectName @ '': '' @ c))
            (map pulled (take k images) @ [(CallPull (images ! k), False)])"
    and on_down: "\<And>e output.
          P (Some (commandFailure ''docker compose down'' projectName e output))
            (map pulled images @ [(CallExec workDir [''docker'', ''compose'', ''down''], False)])"
    and on_up: "\<And>e output.
          P (Some (commandFailure ''docker compose up -d --build'' projectName e output))
            (map pulled images @ [(CallExec workDir [''docker'', ''compose'', ''down''], True),
               (CallExec workDir [''docker'', ''compose'', ''up'', ''-d'', ''--build''], False)])"
    and on_finished: 
         "P None
            (map pulled images @ [(CallExec workDir [''docker'', ''compose'', ''down''], True),
               (CallExec workDir [''docker'', ''compose'', ''up'', ''-d'', ''--build''], True)])"
  shows "P err tr"
proof -
  note defs = UpdateComposeProject_def recordingExec_simp composeDown_def composeUp_def
  obtain e1 w1 tr1 where pl: "pullImages (recording client) projectName images (w, []) = (e1, w1, tr1)"
    by (cases "pullImages (recording client) projectName images (w, [])")
  from pullImages_recording [OF pl] obtain k where k: "case e1 of
            None \<Rightarrow> k = length images \<and> tr1 = [] @ map pulled images
          | Some m \<Rightarrow> k < length images
              \<and> tr1 = [] @ map pulled (take k images) @ [(CallPull (images ! k), False)]
              \<and> (\<exists>c. m = ''failed to pull image '' @ images ! k @ '' for project '' @ projectName
                        @ '': '' @ c)" ..
  show ?thesis
  proof (cases e1)
    case (Some m)
    with k obtain c where "k < length images"
      "tr1 = map pulled (take k images) @ [(CallPull (images ! k), False)]"
      "m = ''failed to pull image '' @ images ! k @ '' for project '' @ projectName @ '': '' @ c"
      by auto
    with Some pl run wd on_pull [of k c] show ?thesis
      by (simp add: defs)
  next
    case None
    with k have tr1: "tr1 = map pulled images" by simp
    note pl = pl [unfolded None tr1]
    obtain r2 o2 w2 where dn: "exec workDir [''docker'', ''compose'', ''down''] w1 = ((r2, o2), w2)"
      by (cases "exec workDir [''docker'', ''compose'', ''down''] w1") auto
    show ?thesis
    proof (cases r2)
      case (Some e)
      with pl dn run wd on_down [of e o2] show ?thesis
        by (simp add: defs)
    next
      case None
      note dn = dn [unfolded None]
      obtain r3 o3 w3 where up: "exec workDir [''docker'', ''compose'', ''up'', ''-d'', ''--build''] w2 = ((r3, o3), w3)"
        by (cases "exec workDir [''docker'', ''compose'', ''up'', ''-d'', ''--build''] w2") auto
      show ?thesis
      proof (cases r3)
        case (Some e)
        with pl dn up run wd on_up [of e o3] show ?thesis
          by (simp add: defs)
      next
        case None
        with pl dn up run wd on_finished show ?thesis
          by (simp add: defs)
      qed
    qed
  qed
qed

lemma compose_recording_same:
  "fst (UpdateComposeProject (recording client) (recordingExec exec) projectName workDir images (w, tr0))
     = fst (UpdateComposeProject client exec projectName workDir images w)"
proof -
  obtain e1 w1 where a: "pullImages client projectName images w = (e1, w1)"
    by (cases "pullImages client projectName images w")
  obtain e2 w2 tr2 where b: "pullImages (recording client) projectName images (w, tr0) = (e2, w2, tr2)"
    by (cases "pullImages (recording client) projectName images (w, tr0)")
  from pullImages_recording_same [of client projectName images w tr0] a b
  have "e2 = e1" "w2 = w1" by simp_all
  with a b show ?thesis
    by (simp add: UpdateComposeProject_def recordingExec_simp split: prod.split option.split)
qed

text \<open>
  Claim C3. With an empty working directory \<open>UpdateComposeProject\<close> fails at once, with
  the error naming the project, without any call to the runtime or any command and
  leaving the runtime as it was. With a working directory it pulls the member images in
  order, then runs \<open>docker compose down\<close> and then \<open>docker compose up -d --build\<close>, both in
  the working directory: the calls it makes are an initial part of that sequence, and
  every call but the last one succeeded. It returns no error exactly when all of them
  were made and succeeded. After a failed pull no command is run; after a failed
  tear-down the bring-up is not run; a command is run only after every member image was
  pulled. The error is the one the function returns with the client and the command
  runner themselves.
\<close>

theorem UpdateComposeProject_order:
  assumes run: "UpdateComposeProject (recording client) (recordingExec exec) projectName workDir
                  images (w, []) = (err, w', tr)"
  shows
   "(workDir = [] \<longrightarrow>
       err = Some (''working directory is required for compose project '' @ projectName)
       \<and> tr = [] \<and> w' = w)
    \<and> (workDir \<noteq> [] \<longrightarrow>
         map fst tr = take (length tr)
           (map CallPull images @
              [CallExec workDir [''docker'', ''compose'', ''down''],
               CallExec workDir [''docker'', ''compose'', ''up'', ''-d'', ''--build'']])
         \<and> tr \<noteq> []
         \<and> (\<forall>ev \<in> set (butlast tr). snd ev)
         \<and> (err = None \<longleftrightarrow> length tr = length images + 2 \<and> snd (last tr))
         \<and> (\<forall>img. (CallPull img, False) \<in> set tr \<longrightarrow>
               (\<forall>dir argv ok. (CallExec dir argv, ok) \<notin> set tr))
         \<and> ((CallExec workDir [''docker'', ''compose'', ''down''], False) \<in> set tr \<longrightarrow>
               (\<forall>ok. (CallExec workDir [''docker'', ''compose'', ''up'', ''-d'', ''--build''], ok)
                  \<notin> set tr))
         \<and> (\<forall>dir argv ok. (CallExec dir argv, ok) \<in> set tr \<longrightarrow>
               take (length images) tr = map (\<lambda>img. (CallPull img, True)) images))
    \<and> err = fst (UpdateComposeProject client exec projectName workDir images w)"
proof -
  have p0: "workDir = [] \<longrightarrow>
       err = Some (''working directory is required for compose project '' @ projectName)
       \<and> tr = [] \<and> w' = w"
    using run by (auto simp: UpdateComposeProject_def)
  have p9: "err = fst (UpdateComposeProject client exec projectName workDir images w)"
    using compose_recording_same [of client exec projectName workDir images w "[]"] run by simp
  have p1: "workDir \<noteq> [] \<longrightarrow>
         map fst tr = take (length tr)
           (map CallPull images @
              [CallExec workDir [''docker'', ''compose'', ''down''],
               CallExec workDir [''docker'', ''compose'', ''up'', ''-d'', ''--build'']])
         \<and> tr \<noteq> []
         \<and> (\<forall>ev \<in> set (butlast tr). snd ev)
         \<and> (err = None \<longleftrightarrow> length tr = length images + 2 \<and> snd (last tr))
         \<and> (\<forall>img. (CallPull img, False) \<in> set tr \<longrightarrow>
               (\<forall>dir argv ok. (CallExec dir argv, ok) \<notin> set tr))
         \<and> ((CallExec workDir [''docker'', ''compose'', ''down''], False) \<in> set tr \<longrightarrow>
               (\<forall>ok. (CallExec workDir [''docker'', ''compose'', ''up'', ''-d'', ''--build''], ok)
                  \<notin> set tr))
         \<and> (\<forall>dir argv ok. (CallExec dir argv, ok) \<in> set tr \<longrightarrow>
               take (length images) tr = map (\<lambda>img. (CallPull img, True)) images)"
  proof
    assume wd: "workDir \<noteq> []"
    have f: "map fst (map pulled xs) = map CallPull xs" for xs
      by (simp add: pulled_def comp_def)
    have noexec: "(CallExec dir argv, ok) \<notin> pulled ` S" for dir argv ok S
      by (auto simp: pulled_def)
    have nofail: "(CallPull img, False) \<notin> pulled ` S" for img S
      by (auto simp: pulled_def)
    have allok: "\<forall>ev \<in> set (map pulled xs). snd ev" for xs
      by (auto simp: pulled_def)
    have pm: "map pulled xs = map (\<lambda>img. (CallPull img, True)) xs" for xs
      by (simp add: pulled_def)
    have q1: "map fst tr = take (length tr)
           (map CallPull images @
              [CallExec workDir [''docker'', ''compose'', ''down''],
               CallExec workDir [''docker'', ''compose'', ''up'', ''-d'', ''--build'']])"
      by (rule compose_cases [OF run wd]) (simp_all add: pulled_def comp_def take_map take_Suc_conv_app_nth min_def)
    have q2: "tr \<noteq> []"
      by (rule compose_cases [OF run wd]) simp_all
    have q3: "\<forall>ev \<in> set (butlast tr). snd ev"
      by (rule compose_cases [OF run wd]) (simp_all add: butlast_append pulled_def)
    have q4: "err = None \<longleftrightarrow> length tr = length images + 2 \<and> snd (last tr)"
      by (rule compose_cases [OF run wd]) simp_all
    have q5: "\<forall>img. (CallPull img, False) \<in> set tr \<longrightarrow>
               (\<forall>dir argv ok. (CallExec dir argv, ok) \<notin> set tr)"
      by (rule compose_cases [OF run wd]) (simp_all add: noexec nofail)
    have q6: "(CallExec workDir [''docker'', ''compose'', ''down''], False) \<in> set tr \<longrightarrow>
               (\<forall>ok. (CallExec workDir [''docker'', ''compose'', ''up'', ''-d'', ''--build''], ok)
                  \<notin> set tr)"
      by (rule compose_cases [OF run wd]) (simp_all add: noexec)
    have q7: "\<forall>dir argv ok. (CallExec dir argv, ok) \<in> set tr \<longrightarrow>
               take (length images) tr = map (\<lambda>img. (CallPull img, True)) images"
      apply (rule compose_cases [OF run wd])
         apply (simp_all add: noexec)
        apply (simp_all add: pulled_def)
      done
    show "map fst tr = take (length tr)
           (map CallPull images @
              [CallExec workDir [''docker'', ''compose'', ''down''],
               CallExec workDir [''docker'', ''compose'', ''up'', ''-d'', ''--build'']])
         \<and> tr \<noteq> []
         \<and> (\<forall>ev \<in> set (butlast tr). snd ev)
         \<and> (err = None \<longleftrightarrow> length tr = length images + 2 \<and> snd (last tr))
         \<and> (\<forall>img. (CallPull img, False) \<in> set tr \<longrightarrow>
               (\<forall>dir argv ok. (CallExec dir argv, ok) \<notin> set tr))
         \<and> ((CallExec workDir [''docker'', ''compose'', ''down''], False) \<in> set tr \<longrightarrow>
               (\<forall>ok. (CallExec workDir [''docker'', ''compose'', ''up'', ''-d'', ''--build''], ok)
                  \<notin> set tr))
         \<and> (\<forall>dir argv ok. (CallExec dir argv, ok) \<in> set tr \<longrightarrow>
               take (length images) tr = map (\<lambda>img. (CallPull img, True)) images)"
      by (intro conjI q1 q2 q3 q4 q5 q6 q7)
  qed
  show ?thesis
    by (intro conjI p0 p1 p9)
qed

lemma compose_noWorkDir_run:
  "UpdateComposeProject (recording successMock) (recordingExec okExec) ''myapp'' []
      [''nginx:latest''] ((), [])
     = (Some ''working directory is required for compose project myapp'', (), [])"
  by (simp add: UpdateComposeProject_def)

lemma compose_pullFails_run:
  "UpdateComposeProject (recording pullFailsMock) (recordingExec okExec) ''myapp'' ''/home/user/app''
      [''nginx:latest''] ((), [])
     = (Some ''failed to pull image nginx:latest for project myapp: failed to pull image'', (),
        [(CallPull ''nginx:latest'', False)])"
  by (simp add: UpdateComposeProject_def recording_simps pullFailsMock_def successMock_def)

lemma compose_downFails_run:
  "UpdateComposeProject (recording successMock) (recordingExec downFailsExec) ''myapp''
      ''/home/user/app'' [''nginx:latest''] ((), [])
     = (Some (commandFailure ''docker compose down'' ''myapp'' ''exit status 1''
                ''no configuration file provided''), (), downFailsTrace)"
  by (simp add: UpdateComposeProject_def recording_simps successMock_def recordingExec_simp
      downFailsExec_def composeDown_def composeUp_def downFailsTrace_def)

lemma compose_success_run:
  "UpdateComposeProject (recording successMock) (recordingExec okExec) ''myapp''
      ''/home/user/app'' [''nginx:latest''] ((), [])
     = (None, (),
        [(CallPull ''nginx:latest'', True),
         (CallExec ''/home/user/app'' [''docker'', ''compose'', ''down''], True),
         (CallExec ''/home/user/app'' [''docker'', ''compose'', ''up'', ''-d'', ''--build''], True)])"
  by (simp add: UpdateComposeProject_def recording_simps successMock_def recordingExec_simp
      okExec_def composeDown_def composeUp_def)

theorem UpdateComposeProject_order_witness:
  "UpdateComposeProject (recording successMock) (recordingExec okExec) ''myapp'' []
      [''nginx:latest''] ((), [])
     = (Some ''working directory is required for compose project myapp'', (), [])
   \<and> UpdateComposeProject (recording successMock) (recordingExec downFailsExec) ''myapp''
      ''/home/user/app'' [''nginx:latest''] ((), [])
     = (Some (commandFailure ''docker compose down'' ''myapp'' ''exit status 1''
                ''no configuration file provided''), (), downFailsTrace)
   \<and> ''/home/user/app'' \<noteq> []
   \<and> (CallExec ''/home/user/app'' [''docker'', ''compose'', ''down''], False) \<in> set downFailsTrace
   \<and> (\<forall>ok. (CallExec ''/home/user/app'' [''docker'', ''compose'', ''up'', ''-d'', ''--build''], ok)
          \<notin> set downFailsTrace)
   \<and> take (length [''nginx:latest'']) downFailsTrace
       = map (\<lambda>img. (CallPull img, True)) [''nginx:latest'']
   \<and> fst (UpdateComposeProject successMock okExec ''myapp'' [] [''nginx:latest''] ())
       = Some ''working directory is required for compose project myapp''"
proof -
  note nowd = UpdateComposeProject_order [OF compose_noWorkDir_run]
  note down = UpdateComposeProject_order [OF compose_downFails_run]
  have wd: "''/home/user/app'' \<noteq> []"
    by simp
  note down' = down [THEN conjunct2, THEN conjunct1, rule_format, OF wd]
  have a: "(CallExec ''/home/user/app'' [''docker'', ''compose'', ''down''], False) \<in> set downFailsTrace"
    by (simp add: downFailsTrace_def)
  have b: "\<forall>ok. (CallExec ''/home/user/app'' [''docker'', ''compose'', ''up'', ''-d'', ''--build''], ok)
          \<notin> set downFailsTrace"
    using down' a by (elim conjE) (erule (1) mp)
  have c: "take (length [''nginx:latest'']) downFailsTrace
       = map (\<lambda>img. (CallPull img, True)) [''nginx:latest'']"
    using down' a by (elim conjE) (drule spec, drule spec, drule spec, erule (1) mp)
  have d: "fst (UpdateComposeProject successMock okExec ''myapp'' [] [''nginx:latest''] ())
       = Some ''working directory is required for compose project myapp''"
    using nowd [THEN conjunct2, THEN conjunct2] by simp
  show ?thesis
    by (intro conjI compose_noWorkDir_run compose_downFails_run wd a b c d)
qed

section \<open>Properties of the update detection\<close>

lemma fold_flag:
  "fold (\<lambda>container hasUpdates. if ci_HasUpdate container then True else hasUpdates) cs h
     = (h \<or> (\<exists>c \<in> set cs. ci_HasUpdate c))"
  by (induction cs arbitrary: h) auto

lemma rollup_flag: "cg_HasUpdates (rollup g) = (\<exists>c \<in> set (cg_Containers g). ci_HasUpdate c)"
  using fold_flag [of "cg_Containers g" False] by (simp add: rollup_def)

lemma rollup_fields:
  "cg_Containers (rollup g) = cg_Containers g" "cg_ID (rollup g) = cg_ID g"
  "cg_Type (rollup g) = cg_Type g" "cg_Name (rollup g) = cg_Name g"
  "cg_WorkingDir (rollup g) = cg_WorkingDir g"
  by (simp_all add: rollup_def)

lemma shape_length: "length (shape gs) = length gs"
  by (simp add: shape_def)

lemma shape_valid: "shape gs' = shape gs \<Longrightarrow> validTask gs' t = validTask gs t"
proof -
  assume a: "shape gs' = shape gs"
  then have l: "length gs' = length gs"
    by (metis shape_length)
  have "length (cg_Containers (gs' ! i)) = length (cg_Containers (gs ! i))" if "i < length gs" for i
  proof -
    have "shape gs' ! i = shape gs ! i" using a by simp
    then have "map identity (cg_Containers (gs' ! i)) = map identity (cg_Containers (gs ! i))"
      using that l by (simp add: shape_def)
    then show ?thesis by (metis length_map)
  qed
  then show ?thesis using l by (auto simp: validTask_def)
qed

lemma map_update_same:
  assumes "j < length xs" "f c = f (xs ! j)"
  shows "map f (xs[j := c]) = map f xs"
proof -
  have "map f (xs[j := c]) = (map f xs)[j := map f xs ! j]"
    using assms by (simp add: map_update)
  also have "\<dots> = map f xs"
    by (rule list_update_id)
  finally show ?thesis .
qed

lemma setContainer_shape:
  assumes "validTask gs t" "identity c = identity (containerAt gs t)"
  shows "shape (setContainer gs t c) = shape gs"
proof -
  let ?i = "fst t" and ?j = "snd t"
  let ?f = "\<lambda>g. (cg_ID g, cg_Name g, cg_Type g, cg_WorkingDir g, map identity (cg_Containers g))"
  have "map identity ((cg_Containers (gs ! ?i))[?j := c]) = map identity (cg_Containers (gs ! ?i))"
    using assms by (intro map_update_same) (simp_all add: containerAt_def validTask_def)
  then have "?f ((gs ! ?i)\<lparr>cg_Containers := (cg_Containers (gs ! ?i))[?j := c]\<rparr>) = ?f (gs ! ?i)"
    by simp
  with assms(1) have "map ?f (gs[?i := (gs ! ?i)\<lparr>cg_Containers := (cg_Containers (gs ! ?i))[?j := c]\<rparr>])
      = map ?f gs"
    by (intro map_update_same) (simp_all add: validTask_def)
  then show ?thesis
    by (simp add: shape_def setContainer_def)
qed

lemma containerAt_set_same:
  "validTask gs t \<Longrightarrow> containerAt (setContainer gs t c) t = c"
  by (simp add: containerAt_def setContainer_def validTask_def)

lemma containerAt_set_other:
  "validTask gs t \<Longrightarrow> t' \<noteq> t \<Longrightarrow> containerAt (setContainer gs t c) t' = containerAt gs t'"
  by (cases t; cases t')
     (auto simp: containerAt_def setContainer_def validTask_def nth_list_update)


lemma step_shape: "shape (cy_groups (goroutineStep client t s)) = shape (cy_groups s)"
  by (simp add: goroutineStep_def Let_def setContainer_shape identity_def
      split: pc.split option.split prod.split sum.split)

lemma step_valid: "validTask (cy_groups (goroutineStep client t s)) t' = validTask (cy_groups s) t'"
  by (rule shape_valid) (rule step_shape)

lemma step_pc_other: "t' \<noteq> t \<Longrightarrow> cy_pcs (goroutineStep client t s) t' = cy_pcs s t'"
  by (simp add: goroutineStep_def Let_def split: pc.split option.split prod.split sum.split)

lemma step_container_other:
  "t' \<noteq> t \<Longrightarrow> containerAt (cy_groups (goroutineStep client t s)) t' = containerAt (cy_groups s) t'"
  by (simp add: goroutineStep_def Let_def containerAt_set_other
      split: pc.split option.split prod.split sum.split)

lemma step_finished: "cy_pcs s t = Finished r \<Longrightarrow> goroutineStep client t s = s"
  by (simp add: goroutineStep_def Let_def)

lemma step_rank:
  "validTask (cy_groups s) t \<Longrightarrow> rank (cy_pcs (goroutineStep client t s) t) \<le> rank (cy_pcs s t) - 1"
  by (simp add: goroutineStep_def Let_def split: pc.split option.split prod.split sum.split)

lemma step_settled_self:
  "settled s t \<Longrightarrow> settled (goroutineStep client t s) t"
  by (cases "validTask (cy_groups s) t")
     (auto simp: goroutineStep_def Let_def settled_def containerAt_set_same
      split: pc.splits option.splits prod.splits sum.splits)

lemma step_settled_other:
  "t' \<noteq> t \<Longrightarrow> settled s t' \<Longrightarrow> settled (goroutineStep client t s) t'"
  by (simp add: settled_def step_pc_other step_container_other Let_def split: pc.splits)

lemma step_settled: "settled s t' \<Longrightarrow> settled (goroutineStep client t s) t'"
  by (cases "t' = t") (simp_all add: step_settled_self step_settled_other)


lemma step_keeps_finished:
  "cy_pcs s t' = Finished r \<Longrightarrow> cy_pcs (goroutineStep client t s) t' = Finished r"
  by (cases "t' = t") (simp_all add: step_finished step_pc_other)

lemma rank_zero: "rank p = 0 \<Longrightarrow> \<exists>r. p = Finished r"
  by (cases p) simp_all

lemma rank_bound: "rank p \<le> 5"
  by (cases p) simp_all

lemma run_shape: "shape (cy_groups (runGoroutine client t s)) = shape (cy_groups s)"
  by (simp add: runGoroutine_def step_shape)

lemma run_valid: "validTask (cy_groups (runGoroutine client t s)) t' = validTask (cy_groups s) t'"
  by (rule shape_valid) (rule run_shape)

lemma run_settled: "settled s t' \<Longrightarrow> settled (runGoroutine client t s) t'"
  by (simp add: runGoroutine_def step_settled)

lemma run_keeps_finished:
  "cy_pcs s t' = Finished r \<Longrightarrow> cy_pcs (runGoroutine client t s) t' = Finished r"
  by (simp add: runGoroutine_def step_keeps_finished)

lemma run_finished:
  assumes v: "validTask (cy_groups s) t"
  shows "\<exists>r. cy_pcs (runGoroutine client t s) t = Finished r"
proof -
  define s1 where "s1 = goroutineStep client t s"
  define s2 where "s2 = goroutineStep client t s1"
  define s3 where "s3 = goroutineStep client t s2"
  define s4 where "s4 = goroutineStep client t s3"
  define s5 where "s5 = goroutineStep client t s4"
  have v1: "validTask (cy_groups s1) t" using v by (simp add: s1_def step_valid)
  have v2: "validTask (cy_groups s2) t" using v1 by (simp add: s2_def step_valid)
  have v3: "validTask (cy_groups s3) t" using v2 by (simp add: s3_def step_valid)
  have v4: "validTask (cy_groups s4) t" using v3 by (simp add: s4_def step_valid)
  have r1: "rank (cy_pcs s1 t) \<le> rank (cy_pcs s t) - 1"
    unfolding s1_def by (rule step_rank [OF v])
  have r2: "rank (cy_pcs s2 t) \<le> rank (cy_pcs s1 t) - 1"
    unfolding s2_def by (rule step_rank [OF v1])
  have r3: "rank (cy_pcs s3 t) \<le> rank (cy_pcs s2 t) - 1"
    unfolding s3_def by (rule step_rank [OF v2])
  have r4: "rank (cy_pcs s4 t) \<le> rank (cy_pcs s3 t) - 1"
    unfolding s4_def by (rule step_rank [OF v3])
  have r5: "rank (cy_pcs s5 t) \<le> rank (cy_pcs s4 t) - 1"
    unfolding s5_def by (rule step_rank [OF v4])
  from r1 r2 r3 r4 r5 rank_bound [of "cy_pcs s t"] have "rank (cy_pcs s5 t) = 0"
    by arith
  moreover have "runGoroutine client t s = s5"
    by (simp add: runGoroutine_def s1_def s2_def s3_def s4_def s5_def)
  ultimately show ?thesis
    by (simp add: rank_zero)
qed

lemma fold_step_shape:
  "shape (cy_groups (fold (goroutineStep client) schedule s)) = shape (cy_groups s)"
  by (induction schedule arbitrary: s) (simp_all add: step_shape)

lemma fold_step_settled:
  "settled s t \<Longrightarrow> settled (fold (goroutineStep client) schedule s) t"
  by (induction schedule arbitrary: s) (simp_all add: step_settled)

lemma fold_run_shape:
  "shape (cy_groups (fold (runGoroutine client) ts s)) = shape (cy_groups s)"
  by (induction ts arbitrary: s) (simp_all add: run_shape)

lemma fold_run_settled:
  "settled s t \<Longrightarrow> settled (fold (runGoroutine client) ts s) t"
  by (induction ts arbitrary: s) (simp_all add: run_settled)

lemma fold_run_keeps_finished:
  "cy_pcs s t = Finished r \<Longrightarrow> cy_pcs (fold (runGoroutine client) ts s) t = Finished r"
  by (induction ts arbitrary: s) (simp_all add: run_keeps_finished)

lemma fold_run_finished:
  "t \<in> set ts \<Longrightarrow> validTask (cy_groups s) t \<Longrightarrow>
     \<exists>r. cy_pcs (fold (runGoroutine client) ts s) t = Finished r"
proof (induction ts arbitrary: s)
  case Nil
  then show ?case by simp
next
  case (Cons a ts)
  show ?case
  proof (cases "t = a")
    case True
    with Cons.prems(2) obtain r where "cy_pcs (runGoroutine client a s) t = Finished r"
      using run_finished [of s a client] by auto
    then show ?thesis
      by (simp add: fold_run_keeps_finished)
  next
    case False
    with Cons.prems have "t \<in> set ts" "validTask (cy_groups (runGoroutine client a s)) t"
      by (simp_all add: run_valid)
    then show ?thesis
      using Cons.IH by simp
  qed
qed

lemma tasks_valid: "t \<in> set (tasks groups) \<longleftrightarrow> validTask groups t"
  by (cases t) (force simp: tasks_def validTask_def)

lemma cycle_shape: "shape (cy_groups (checkCycle client schedule groups w)) = shape groups"
  by (simp add: checkCycle_def fold_run_shape fold_step_shape)

lemma cycle_valid: "validTask (cy_groups (checkCycle client schedule groups w)) t = validTask groups t"
  by (rule shape_valid) (rule cycle_shape)

lemma cycle_settled: "settled (checkCycle client schedule groups w) t"
  unfolding checkCycle_def
  by (intro fold_run_settled fold_step_settled) (simp add: settled_def)

lemma cycle_finished:
  assumes "validTask groups t"
  shows "\<exists>r. cy_pcs (checkCycle client schedule groups w) t = Finished r"
  unfolding checkCycle_def
proof (rule fold_run_finished)
  show "t \<in> set (tasks groups)"
    using assms by (simp add: tasks_valid)
  show "validTask (cy_groups (fold (goroutineStep client) schedule
          \<lparr>cy_world = w, cy_imageDigests = Map.empty, cy_groups = groups, cy_pcs = \<lambda>t. Start\<rparr>)) t"
    using assms
    by (simp add: shape_valid [OF fold_step_shape
          [of client schedule "\<lparr>cy_world = w, cy_imageDigests = Map.empty, cy_groups = groups,
             cy_pcs = \<lambda>t. Start\<rparr>"], simplified])
qed

lemma containerAt_rollup:
  "validTask gs t \<Longrightarrow> containerAt (map rollup gs) t = containerAt gs t"
  by (simp add: containerAt_def validTask_def rollup_fields)

lemma shape_rollup: "shape (map rollup gs) = shape gs"
  by (simp add: shape_def rollup_fields comp_def)

lemma nginx_registry: "\<not> isLocalImage ''nginx:latest''"
  by (simp add: isLocalImage_def HasPrefix_def SplitN2_def)

lemma redis_registry: "\<not> isLocalImage ''redis:latest''"
  by (simp add: isLocalImage_def HasPrefix_def SplitN2_def)

lemmas cycle_eval =
  CheckUpdates_def checkCycle_def tasks_def runGoroutine_def goroutineStep_def validTask_def
  containerAt_def setContainer_def Let_def rollup_def areAllContainersRunning_def

lemma counting_run:
  "CheckUpdates countingMock [] [nginxGroup, emptyGroup] (\<lambda>img. 0) =
     (None,
      [nginxGroup\<lparr>cg_Containers :=
           [nginxInfo\<lparr>ci_ImageDigest := ''sha256:new-digest'',
                       ci_LatestDigest := ''sha256:old-digest'', ci_HasUpdate := True\<rparr>],
         cg_HasUpdates := True, cg_AllRunning := True\<rparr>,
       emptyGroup\<lparr>cg_HasUpdates := False, cg_AllRunning := False\<rparr>],
      (\<lambda>img. 0)(''nginx:latest'' := 2))"
  by (simp add: cycle_eval countingMock_def mockClient_def nginxGroup_def nginxInfo_def
      emptyGroup_def nginx_registry numeral_2_eq_2)


lemma flaky_run:
  "CheckUpdates flakyMock [] [nginxGroup, redisGroup] (\<lambda>img. 0) =
     (None,
      [nginxGroup\<lparr>cg_Containers :=
           [nginxInfo\<lparr>ci_ImageDigest := ''sha256:new-digest'',
                       ci_LatestDigest := ''sha256:old-digest'', ci_HasUpdate := True\<rparr>],
         cg_HasUpdates := True, cg_AllRunning := True\<rparr>,
       redisGroup\<lparr>cg_AllRunning := True\<rparr>],
      (\<lambda>img. 0)(''nginx:latest'' := Suc (Suc 0)))"
  by (simp add: cycle_eval flakyMock_def countingMock_def mockClient_def nginxGroup_def
      nginxInfo_def redisGroup_def redisInfo_def nginx_registry redis_registry)

lemma flaky_pcs:
  "cy_pcs (checkCycle flakyMock [] [nginxGroup, redisGroup] (\<lambda>img. 0)) (Suc 0, 0)
     = Finished PullFailed"
  "cy_pcs (checkCycle flakyMock [] [nginxGroup, redisGroup] (\<lambda>img. 0)) (0, 0)
     = Finished Compared"
  by (simp_all add: cycle_eval flakyMock_def countingMock_def mockClient_def nginxGroup_def
      nginxInfo_def redisGroup_def redisInfo_def nginx_registry redis_registry)

text \<open>
  Claim C7. Whatever the client, the interleaving of the goroutines and the groups passed
  in, \<open>CheckUpdates\<close> leaves every group with a flag \<open>HasUpdates\<close> that is true exactly
  when one of its members has its flag \<open>HasUpdate\<close> true; the flag of a group without
  members is false. The groups and their members are those passed in.
\<close>

theorem CheckUpdates_rollup:
  assumes run: "CheckUpdates client schedule groups w = (err, groups', w')"
  shows "(\<forall>g \<in> set groups'. cg_HasUpdates g \<longleftrightarrow> (\<exists>c \<in> set (cg_Containers g). ci_HasUpdate c))
     \<and> (\<forall>g \<in> set groups'. cg_Containers g = [] \<longrightarrow> \<not> cg_HasUpdates g)
     \<and> length groups' = length groups
     \<and> map cg_ID groups' = map cg_ID groups
     \<and> map (\<lambda>g. map ci_ID (cg_Containers g)) groups'
         = map (\<lambda>g. map ci_ID (cg_Containers g)) groups"
proof -
  let ?s = "checkCycle client schedule groups w"
  from run have g': "groups' = map rollup (cy_groups ?s)"
    by (simp add: CheckUpdates_def Let_def)
  have a: "\<forall>g \<in> set groups'. cg_HasUpdates g \<longleftrightarrow> (\<exists>c \<in> set (cg_Containers g). ci_HasUpdate c)"
    by (auto simp: g' rollup_flag rollup_fields)
  have b: "\<forall>g \<in> set groups'. cg_Containers g = [] \<longrightarrow> \<not> cg_HasUpdates g"
    using a by auto
  have sh: "shape groups' = shape groups"
    by (simp add: g' shape_rollup cycle_shape)
  have c: "length groups' = length groups"
    using sh by (metis shape_length)
  have d: "map cg_ID groups' = map cg_ID groups"
  proof -
    have "map fst (shape groups') = map fst (shape groups)" using sh by simp
    then show ?thesis by (simp add: shape_def comp_def)
  qed
  have e: "map (\<lambda>g. map ci_ID (cg_Containers g)) groups'
         = map (\<lambda>g. map ci_ID (cg_Containers g)) groups"
  proof -
    have "map (\<lambda>x. map fst (snd (snd (snd (snd x))))) (shape groups')
        = map (\<lambda>x. map fst (snd (snd (snd (snd x))))) (shape groups)" using sh by simp
    then show ?thesis by (simp add: shape_def comp_def identity_def)
  qed
  show ?thesis
    by (intro conjI a b c d e)
qed

theorem CheckUpdates_rollup_witness:
  "(\<exists>groups'. fst (snd (CheckUpdates countingMock [] [nginxGroup, emptyGroup] (\<lambda>img. 0))) = groups'
     \<and> length groups' = 2
     \<and> (\<exists>c \<in> set (cg_Containers (groups' ! 0)). ci_HasUpdate c)
     \<and> groups' ! 0 \<in> set groups' \<and> cg_HasUpdates (groups' ! 0)
     \<and> groups' ! 1 \<in> set groups' \<and> cg_Containers (groups' ! 1) = []
     \<and> \<not> cg_HasUpdates (groups' ! 1))"
proof -
  let ?g0 = "nginxGroup\<lparr>cg_Containers :=
           [nginxInfo\<lparr>ci_ImageDigest := ''sha256:new-digest'',
                       ci_LatestDigest := ''sha256:old-digest'', ci_HasUpdate := True\<rparr>],
         cg_HasUpdates := True, cg_AllRunning := True\<rparr>"
  let ?g1 = "emptyGroup\<lparr>cg_HasUpdates := False, cg_AllRunning := False\<rparr>"
  note T = CheckUpdates_rollup [OF counting_run]
  have m0: "?g0 \<in> set [?g0, ?g1]" and m1: "?g1 \<in> set [?g0, ?g1]"
    by simp_all
  have c0: "\<exists>c \<in> set (cg_Containers ?g0). ci_HasUpdate c"
    by simp
  have h0: "cg_HasUpdates ?g0"
    using T [THEN conjunct1, rule_format, OF m0] c0 by (rule iffD2)
  have e1: "cg_Containers ?g1 = []"
    by (simp add: emptyGroup_def)
  have h1: "\<not> cg_HasUpdates ?g1"
    using T [THEN conjunct2, THEN conjunct1, rule_format, OF m1 e1] .
  have l: "length [?g0, ?g1] = 2"
    by simp
  show ?thesis
    apply (rule exI [of _ "[?g0, ?g1]"])
    apply (intro conjI)
           apply (simp add: counting_run)
          apply (rule l)
    using c0 apply simp
    using m0 apply simp
    using h0 apply simp
    using m1 apply simp
    using e1 apply simp
    using h1 apply simp
    done
qed

text \<open>
  Claim C4. Whatever the client, the interleaving of the goroutines and the groups,
  \<open>CheckUpdates\<close> returns no error. Every goroutine returns: no failure of a call stops
  the others. A container whose goroutine returned after a failed pull or a failed digest
  resolution (or for a local image) has its flag false; a container whose goroutine came
  to the comparison has the flag the comparison gives, whatever failed elsewhere. A
  failing pull lets the goroutine return as \<open>PullFailed\<close>, a failing first digest
  resolution as \<open>LatestDigestFailed\<close>, a failing second one as \<open>CurrentDigestFailed\<close>. A
  step of one goroutine changes neither the container nor the program counter of any
  other goroutine. The containers keep their identifiers and image references.
\<close>

theorem CheckUpdates_soft_failures:
  "fst (CheckUpdates client schedule groups w) = None
   \<and> (\<forall>t. validTask groups t \<longrightarrow>
        (\<exists>r. cy_pcs (checkCycle client schedule groups w) t = Finished r
           \<and> (r \<noteq> Compared \<longrightarrow>
                \<not> ci_HasUpdate (containerAt (fst (snd (CheckUpdates client schedule groups w))) t))
           \<and> (r = Compared \<longrightarrow>
                ci_HasUpdate (containerAt (fst (snd (CheckUpdates client schedule groups w))) t)
                = (ci_ImageDigest (containerAt (fst (snd (CheckUpdates client schedule groups w))) t)
                   \<noteq> ci_LatestDigest
                       (containerAt (fst (snd (CheckUpdates client schedule groups w))) t)))))
   \<and> map (\<lambda>g. map (\<lambda>c. (ci_ID c, ci_Image c)) (cg_Containers g))
         (fst (snd (CheckUpdates client schedule groups w)))
       = map (\<lambda>g. map (\<lambda>c. (ci_ID c, ci_Image c)) (cg_Containers g)) groups
   \<and> (\<forall>s t. validTask (cy_groups s) t \<longrightarrow> cy_pcs s t = NeedPull \<longrightarrow>
         fst (PullImage client (ci_Image (containerAt (cy_groups s) t)) (cy_world s)) \<noteq> None \<longrightarrow>
         cy_pcs (goroutineStep client t s) t = Finished PullFailed)
   \<and> (\<forall>s t. validTask (cy_groups s) t \<longrightarrow> cy_pcs s t = Pulled \<longrightarrow>
         isl (fst (GetImageDigest client (ci_Image (containerAt (cy_groups s) t)) (cy_world s))) \<longrightarrow>
         cy_pcs (goroutineStep client t s) t = Finished LatestDigestFailed)
   \<and> (\<forall>s t d. validTask (cy_groups s) t \<longrightarrow> cy_pcs s t = Resolved d \<longrightarrow>
         isl (fst (GetImageDigest client (ci_Image (containerAt (cy_groups s) t)) (cy_world s))) \<longrightarrow>
         cy_pcs (goroutineStep client t s) t = Finished CurrentDigestFailed)
   \<and> (\<forall>s t t'. t' \<noteq> t \<longrightarrow>
         cy_pcs (goroutineStep client t s) t' = cy_pcs s t'
         \<and> containerAt (cy_groups (goroutineStep client t s)) t' = containerAt (cy_groups s) t')"
proof -
  let ?s = "checkCycle client schedule groups w"
  let ?gs = "fst (snd (CheckUpdates client schedule groups w))"
  have gs: "?gs = map rollup (cy_groups ?s)"
    by (simp add: CheckUpdates_def Let_def)
  have a: "fst (CheckUpdates client schedule groups w) = None"
    by (simp add: CheckUpdates_def Let_def)
  have b: "\<forall>t. validTask groups t \<longrightarrow>
        (\<exists>r. cy_pcs ?s t = Finished r
           \<and> (r \<noteq> Compared \<longrightarrow> \<not> ci_HasUpdate (containerAt ?gs t))
           \<and> (r = Compared \<longrightarrow>
                ci_HasUpdate (containerAt ?gs t)
                = (ci_ImageDigest (containerAt ?gs t) \<noteq> ci_LatestDigest (containerAt ?gs t))))"
  proof (intro allI impI)
    fix t
    assume v: "validTask groups t"
    then have v': "validTask (cy_groups ?s) t"
      by (simp add: cycle_valid)
    from cycle_finished [OF v] obtain r where r: "cy_pcs ?s t = Finished r" ..
    have c: "containerAt ?gs t = containerAt (cy_groups ?s) t"
      unfolding gs by (rule containerAt_rollup [OF v'])
    from cycle_settled [of client schedule groups w t] r
    have "if r = Compared
          then ci_HasUpdate (containerAt (cy_groups ?s) t)
               = (ci_ImageDigest (containerAt (cy_groups ?s) t)
                  \<noteq> ci_LatestDigest (containerAt (cy_groups ?s) t))
          else \<not> ci_HasUpdate (containerAt (cy_groups ?s) t)"
      by (simp add: settled_def Let_def)
    with r show "\<exists>r. cy_pcs ?s t = Finished r
           \<and> (r \<noteq> Compared \<longrightarrow> \<not> ci_HasUpdate (containerAt ?gs t))
           \<and> (r = Compared \<longrightarrow>
                ci_HasUpdate (containerAt ?gs t)
                = (ci_ImageDigest (containerAt ?gs t) \<noteq> ci_LatestDigest (containerAt ?gs t)))"
      unfolding c by (intro exI [of _ r]) (simp split: if_splits)
  qed
  have c: "map (\<lambda>g. map (\<lambda>c. (ci_ID c, ci_Image c)) (cg_Containers g)) ?gs
       = map (\<lambda>g. map (\<lambda>c. (ci_ID c, ci_Image c)) (cg_Containers g)) groups"
  proof -
    have sh: "shape ?gs = shape groups"
      unfolding gs by (simp add: shape_rollup cycle_shape)
    then have "map (\<lambda>x. map (\<lambda>y. (fst y, fst (snd (snd y)))) (snd (snd (snd (snd x))))) (shape ?gs)
        = map (\<lambda>x. map (\<lambda>y. (fst y, fst (snd (snd y)))) (snd (snd (snd (snd x))))) (shape groups)"
      by simp
    then show ?thesis
      by (simp add: shape_def comp_def identity_def)
  qed
  have d: "\<forall>s t. validTask (cy_groups s) t \<longrightarrow> cy_pcs s t = NeedPull \<longrightarrow>
         fst (PullImage client (ci_Image (containerAt (cy_groups s) t)) (cy_world s)) \<noteq> None \<longrightarrow>
         cy_pcs (goroutineStep client t s) t = Finished PullFailed"
    by (auto simp: goroutineStep_def Let_def split: prod.splits option.splits)
  have e: "\<forall>s t. validTask (cy_groups s) t \<longrightarrow> cy_pcs s t = Pulled \<longrightarrow>
         isl (fst (GetImageDigest client (ci_Image (containerAt (cy_groups s) t)) (cy_world s))) \<longrightarrow>
         cy_pcs (goroutineStep client t s) t = Finished LatestDigestFailed"
    by (auto simp: goroutineStep_def Let_def split: prod.splits sum.splits)
  have f: "\<forall>s t d. validTask (cy_groups s) t \<longrightarrow> cy_pcs s t = Resolved d \<longrightarrow>
         isl (fst (GetImageDigest client (ci_Image (containerAt (cy_groups s) t)) (cy_world s))) \<longrightarrow>
         cy_pcs (goroutineStep client t s) t = Finished CurrentDigestFailed"
    by (auto simp: goroutineStep_def Let_def split: prod.splits sum.splits)
  have g: "\<forall>s t t'. t' \<noteq> t \<longrightarrow>
         cy_pcs (goroutineStep client t s) t' = cy_pcs s t'
         \<and> containerAt (cy_groups (goroutineStep client t s)) t' = containerAt (cy_groups s) t'"
    by (simp add: step_pc_other step_container_other)
  show ?thesis
    by (intro conjI a b c d e f g)
qed

theorem CheckUpdates_soft_failures_witness:
  "fst (CheckUpdates flakyMock [] [nginxGroup, redisGroup] (\<lambda>img. 0)) = None
   \<and> validTask [nginxGroup, redisGroup] (Suc 0, 0)
   \<and> cy_pcs (checkCycle flakyMock [] [nginxGroup, redisGroup] (\<lambda>img. 0)) (Suc 0, 0)
       = Finished PullFailed
   \<and> \<not> ci_HasUpdate
         (containerAt (fst (snd (CheckUpdates flakyMock [] [nginxGroup, redisGroup] (\<lambda>img. 0))))
            (Suc 0, 0))
   \<and> validTask [nginxGroup, redisGroup] (0, 0)
   \<and> cy_pcs (checkCycle flakyMock [] [nginxGroup, redisGroup] (\<lambda>img. 0)) (0, 0)
       = Finished Compared
   \<and> ci_HasUpdate
         (containerAt (fst (snd (CheckUpdates flakyMock [] [nginxGroup, redisGroup] (\<lambda>img. 0))))
            (0, 0))"
proof -
  let ?r = "CheckUpdates flakyMock [] [nginxGroup, redisGroup] (\<lambda>img. 0)"
  note T = CheckUpdates_soft_failures [of flakyMock "[]" "[nginxGroup, redisGroup]" "\<lambda>img. 0"]
  have v1: "validTask [nginxGroup, redisGroup] (Suc 0, 0)"
    by (simp add: validTask_def redisGroup_def)
  have v0: "validTask [nginxGroup, redisGroup] (0, 0)"
    by (simp add: validTask_def nginxGroup_def)
  from T [THEN conjunct2, THEN conjunct1, rule_format, OF v1] flaky_pcs(1)
  have h1: "\<not> ci_HasUpdate (containerAt (fst (snd ?r)) (Suc 0, 0))"
    by auto
  from T [THEN conjunct2, THEN conjunct1, rule_format, OF v0] flaky_pcs(2)
  have "ci_HasUpdate (containerAt (fst (snd ?r)) (0, 0))
      = (ci_ImageDigest (containerAt (fst (snd ?r)) (0, 0))
         \<noteq> ci_LatestDigest (containerAt (fst (snd ?r)) (0, 0)))"
    by auto
  then have h0: "ci_HasUpdate (containerAt (fst (snd ?r)) (0, 0))"
    by (simp add: flaky_run containerAt_def)
  show ?thesis
    by (intro conjI T [THEN conjunct1] v1 v0 flaky_pcs h1 h0)
qed

text \<open>A cycle over one single container does not depend on the schedule.\<close>

lemma step_invalid: "\<not> validTask (cy_groups s) t \<Longrightarrow> goroutineStep client t s = s"
  by (simp add: goroutineStep_def)

lemma run_absorbs_step:
  assumes "validTask (cy_groups s) t"
  shows "runGoroutine client t (goroutineStep client t s) = runGoroutine client t s"
proof -
  from run_finished [OF assms] obtain r where "cy_pcs (runGoroutine client t s) t = Finished r" ..
  then have "goroutineStep client t (runGoroutine client t s) = runGoroutine client t s"
    by (rule step_finished)
  then show ?thesis
    by (simp add: runGoroutine_def)
qed

lemma single_goroutine_fold:
  assumes "\<And>t. validTask (cy_groups s) t \<Longrightarrow> t = t0"
  shows "runGoroutine client t0 (fold (goroutineStep client) schedule s) = runGoroutine client t0 s"
  using assms
proof (induction schedule arbitrary: s)
  case Nil
  then show ?case by simp
next
  case (Cons a schedule)
  have "runGoroutine client t0 (fold (goroutineStep client) schedule (goroutineStep client a s))
      = runGoroutine client t0 (goroutineStep client a s)"
    by (rule Cons.IH) (simp add: step_valid Cons.prems)
  also have "\<dots> = runGoroutine client t0 s"
  proof (cases "validTask (cy_groups s) a")
    case True
    with Cons.prems have "a = t0" by simp
    with True show ?thesis by (simp add: run_absorbs_step)
  next
    case False
    then show ?thesis by (simp add: step_invalid)
  qed
  finally show ?case by simp
qed

lemma single_goroutine_cycle:
  assumes "length groups = 1" "length (cg_Containers (groups ! 0)) = 1"
  shows "checkCycle client schedule groups w = checkCycle client [] groups w"
proof -
  let ?s0 = "\<lparr>cy_world = w, cy_imageDigests = Map.empty, cy_groups = groups,
               cy_pcs = \<lambda>t. Start\<rparr>"
  have t: "tasks groups = [(0, 0)]"
    using assms by (simp add: tasks_def)
  have "validTask (cy_groups ?s0) t \<Longrightarrow> t = (0, 0)" for t
    using assms by (cases t) (auto simp: validTask_def)
  then have "runGoroutine client (0, 0) (fold (goroutineStep client) schedule ?s0)
      = runGoroutine client (0, 0) ?s0"
    by (rule single_goroutine_fold)
  then show ?thesis
    by (simp add: checkCycle_def t)
qed

lemma stale_sequential:
  "CheckUpdates daemonClient [] [nginxGroup] staleDaemon =
     (None,
      [nginxGroup\<lparr>cg_Containers :=
           [nginxInfo\<lparr>ci_ImageDigest := ''sha256:bbb'', ci_LatestDigest := ''sha256:bbb'',
                       ci_HasUpdate := False\<rparr>],
         cg_HasUpdates := False, cg_AllRunning := True\<rparr>],
      staleDaemon\<lparr>dm_tags := [''nginx:latest'' \<mapsto> ''sha256:bbb'']\<rparr>)"
  by (simp add: cycle_eval daemonClient_def mockClient_def nginxGroup_def nginxInfo_def
      staleDaemon_def nginx_registry)

text \<open>
  Claim C1, where the code departs from it. The container \<open>nginx\<close> runs \<open>nginx:latest\<close>;
  the reference names the image \<open>sha256:aaa\<close> locally and the registry holds
  \<open>sha256:bbb\<close>, so the instance's own digest differs from the latest one. Whatever the
  schedule, \<open>CheckUpdates\<close> pulls the reference, which then names \<open>sha256:bbb\<close>, resolves
  the latest digest through the reference, resolves what it records as the current
  digest through the same reference, and so records \<open>sha256:bbb\<close> twice and leaves the
  update flag false.
\<close>

theorem CheckUpdates_stale_tag:
  "dm_tags staleDaemon ''nginx:latest'' = Some ''sha256:aaa''
   \<and> dm_registry staleDaemon ''nginx:latest'' = Some ''sha256:bbb''
   \<and> \<not> isLocalImage (ci_Image nginxInfo)
   \<and> (\<forall>schedule.
        CheckUpdates daemonClient schedule [nginxGroup] staleDaemon =
          (None,
           [nginxGroup\<lparr>cg_Containers :=
                [nginxInfo\<lparr>ci_ImageDigest := ''sha256:bbb'', ci_LatestDigest := ''sha256:bbb'',
                            ci_HasUpdate := False\<rparr>],
              cg_HasUpdates := False, cg_AllRunning := True\<rparr>],
           staleDaemon\<lparr>dm_tags := [''nginx:latest'' \<mapsto> ''sha256:bbb'']\<rparr>))"
proof -
  have a: "dm_tags staleDaemon ''nginx:latest'' = Some ''sha256:aaa''"
    "dm_registry staleDaemon ''nginx:latest'' = Some ''sha256:bbb''"
    by (simp_all add: staleDaemon_def)
  have b: "\<not> isLocalImage (ci_Image nginxInfo)"
    by (simp add: nginxInfo_def nginx_registry)
  have c: "CheckUpdates daemonClient schedule [nginxGroup] staleDaemon
      = CheckUpdates daemonClient [] [nginxGroup] staleDaemon" for schedule
  proof -
    have "checkCycle daemonClient schedule [nginxGroup] staleDaemon
        = checkCycle daemonClient [] [nginxGroup] staleDaemon"
      by (rule single_goroutine_cycle) (simp_all add: nginxGroup_def)
    then show ?thesis
      by (simp add: CheckUpdates_def)
  qed
  show ?thesis
  proof (intro conjI allI a b)
    fix schedule
    show "CheckUpdates daemonClient schedule [nginxGroup] staleDaemon =
          (None,
           [nginxGroup\<lparr>cg_Containers :=
                [nginxInfo\<lparr>ci_ImageDigest := ''sha256:bbb'', ci_LatestDigest := ''sha256:bbb'',
                            ci_HasUpdate := False\<rparr>],
              cg_HasUpdates := False, cg_AllRunning := True\<rparr>],
           staleDaemon\<lparr>dm_tags := [''nginx:latest'' \<mapsto> ''sha256:bbb'']\<rparr>)"
      using c [of schedule] stale_sequential by (rule trans)
  qed
qed

text \<open>
  Claim C9, where the code departs from it. Two containers of one group run
  \<open>nginx:latest\<close>. When both goroutines look the reference up in \<open>imageDigests\<close> before
  either has written it, each of them pulls the reference and resolves its latest
  digest: the look-up and the write are two critical sections, with the pull between
  them. When the pull fails, nothing is written, and the second goroutine pulls again
  even if the goroutines run one after the other. With a client whose calls succeed and
  the goroutines run one after the other, the reference is pulled once.
\<close>

theorem CheckUpdates_duplicate_pulls:
  "map ci_Image (cg_Containers sharedGroup) = [''nginx:latest'', ''nginx:latest'']
   \<and> snd (snd (snd (CheckUpdates (recording mockClient) [(0, 0), (0, Suc 0)] [sharedGroup]
                      ((), []))))
       = [(CallPull ''nginx:latest'', True), (CallDigest ''nginx:latest'', True),
          (CallDigest ''nginx:latest'', True),
          (CallPull ''nginx:latest'', True), (CallDigest ''nginx:latest'', True),
          (CallDigest ''nginx:latest'', True)]
   \<and> snd (snd (snd (CheckUpdates (recording pullFailsMock) [] [sharedGroup] ((), []))))
       = [(CallPull ''nginx:latest'', False), (CallPull ''nginx:latest'', False)]
   \<and> snd (snd (snd (CheckUpdates (recording mockClient) [] [sharedGroup] ((), []))))
       = [(CallPull ''nginx:latest'', True), (CallDigest ''nginx:latest'', True),
          (CallDigest ''nginx:latest'', True), (CallDigest ''nginx:latest'', True)]"
proof -
  have a: "map ci_Image (cg_Containers sharedGroup) = [''nginx:latest'', ''nginx:latest'']"
    by (simp add: sharedGroup_def nginxInfo_def)
  have b: "snd (snd (snd (CheckUpdates (recording mockClient) [(0, 0), (0, Suc 0)] [sharedGroup]
                      ((), []))))
       = [(CallPull ''nginx:latest'', True), (CallDigest ''nginx:latest'', True),
          (CallDigest ''nginx:latest'', True),
          (CallPull ''nginx:latest'', True), (CallDigest ''nginx:latest'', True),
          (CallDigest ''nginx:latest'', True)]"
    by (simp add: cycle_eval recording_simps mockClient_def sharedGroup_def nginxInfo_def
        nginx_registry)
  have c: "snd (snd (snd (CheckUpdates (recording pullFailsMock) [] [sharedGroup] ((), []))))
       = [(CallPull ''nginx:latest'', False), (CallPull ''nginx:latest'', False)]"
    by (simp add: cycle_eval recording_simps pullFailsMock_def successMock_def sharedGroup_def
        nginxInfo_def nginx_registry)
  have d: "snd (snd (snd (CheckUpdates (recording mockClient) [] [sharedGroup] ((), []))))
       = [(CallPull ''nginx:latest'', True), (CallDigest ''nginx:latest'', True),
          (CallDigest ''nginx:latest'', True), (CallDigest ''nginx:latest'', True)]"
    by (simp add: cycle_eval recording_simps mockClient_def sharedGroup_def nginxInfo_def
        nginx_registry)
  show ?thesis
    by (intro conjI a b c d)
qed

end
